theory Spec2Isabelle
  imports Main "HOL-Library.Sublist"
begin

section \<open>JavaScript values as the server uses them\<close>

text \<open>
  The workflow server (custom-mcp-server/server.js) builds its answers as text. Strings are
  modelled as byte strings (the UTF-8 encoding of the JavaScript string); a field of a
  credentials entry, which is either a string or \<open>undefined\<close>, is a
  \<open>string option\<close>. Output written with console.error goes to the log only and is
  left out.
\<close>

definition str :: "string option \<Rightarrow> string" where
  \<comment> \<open>a string-or-undefined value inside a template literal\<close>
  "str x = (case x of None \<Rightarrow> ''undefined'' | Some s \<Rightarrow> s)"

definition truthy :: "string option \<Rightarrow> bool" where
  \<comment> \<open>undefined and the empty string are falsy\<close>
  "truthy x = (case x of None \<Rightarrow> False | Some s \<Rightarrow> s \<noteq> [])"

definition or_else :: "string option \<Rightarrow> string option \<Rightarrow> string option" where
  \<comment> \<open>the operator || on two such values\<close>
  "or_else a b = (if truthy a then a else b)"

definition endsWith :: "string \<Rightarrow> string \<Rightarrow> bool" where
  "endsWith s suf = suffix suf s"

fun replace :: "string \<Rightarrow> string \<Rightarrow> string \<Rightarrow> string" where
  \<comment> \<open>s.replace(pat, rep) with a string pattern: the first occurrence only\<close>
  "replace [] pat rep = (if pat = [] then rep else [])"
| "replace (c # cs) pat rep =
     (if prefix pat (c # cs) then rep @ drop (length pat) (c # cs)
      else c # replace cs pat rep)"

fun join :: "string list \<Rightarrow> string \<Rightarrow> string" where
  \<comment> \<open>array.join(sep)\<close>
  "join [] sep = []"
| "join [x] sep = x"
| "join (x # y # ys) sep = x @ sep @ join (y # ys) sep"

fun show_nat :: "nat \<Rightarrow> string" where
  "show_nat n =
     (if n < 10 then [char_of (48 + n)]
      else show_nat (n div 10) @ [char_of (48 + n mod 10)])"

declare show_nat.simps [simp del]

definition show_int :: "int \<Rightarrow> string" where
  "show_int i = (if i < 0 then ''-'' @ show_nat (nat (- i)) else show_nat (nat i))"

definition toUpperCase :: "string \<Rightarrow> string" where
  \<comment> \<open>the ASCII letters; bytes outside a-z are kept as they are\<close>
  "toUpperCase s =
     map (\<lambda>c. let n = (of_char c :: nat) in if 97 \<le> n \<and> n \<le> 122 then char_of (n - 32) else c) s"

subsection \<open>JSON values and JSON.stringify(value, null, 2)\<close>

datatype json =
    JNull
  | JBool bool
  | JNum int
  | JStr string
  | JArr "json list"
  | JObj "(string \<times> json) list"

definition json_truthy :: "json \<Rightarrow> bool" where
  "json_truthy v = (v \<noteq> JNull \<and> v \<noteq> JBool False \<and> v \<noteq> JNum 0 \<and> v \<noteq> JStr [])"

definition hex_digit :: "nat \<Rightarrow> char" where
  "hex_digit n = (if n < 10 then char_of (48 + n) else char_of (87 + n))"

definition escape_char :: "char \<Rightarrow> string" where
  \<open>escape_char c =
     (let n = (of_char c :: nat) in
      if n = 34 then [CHR 0x5C, CHR 0x22]
      else if n = 92 then [CHR 0x5C, CHR 0x5C]
      else if n = 8 then [CHR 0x5C, CHR ''b'']
      else if n = 12 then [CHR 0x5C, CHR ''f'']
      else if n = 10 then [CHR 0x5C, CHR ''n'']
      else if n = 13 then [CHR 0x5C, CHR ''r'']
      else if n = 9 then [CHR 0x5C, CHR ''t'']
      else if n < 32 then [CHR 0x5C, CHR ''u'', CHR ''0'', CHR ''0'', hex_digit (n div 16), hex_digit (n mod 16)]
      else [c])\<close>

definition quote :: "string \<Rightarrow> string" where
  "quote s = [CHR 0x22] @ concat (map escape_char s) @ [CHR 0x22]"

definition indent :: "nat \<Rightarrow> string" where
  "indent n = replicate n CHR '' ''"

fun stringify_at :: "nat \<Rightarrow> json \<Rightarrow> string" where
  "stringify_at ind JNull = ''null''"
| "stringify_at ind (JBool b) = (if b then ''true'' else ''false'')"
| "stringify_at ind (JNum n) = show_int n"
| "stringify_at ind (JStr s) = quote s"
| "stringify_at ind (JArr xs) =
     (if xs = [] then ''[]''
      else ''[\<newline>''
        @ join (map (\<lambda>x. indent (ind + 2) @ stringify_at (ind + 2) x) xs) '',\<newline>''
        @ ''\<newline>'' @ indent ind @ '']'')"
| "stringify_at ind (JObj kvs) =
     (if kvs = [] then ''{}''
      else ''{\<newline>''
        @ join (map (\<lambda>(k, v). indent (ind + 2) @ quote k @ '': '' @ stringify_at (ind + 2) v) kvs)
            '',\<newline>''
        @ ''\<newline>'' @ indent ind @ ''}'')"

definition stringify :: "json \<Rightarrow> string" where
  "stringify v = stringify_at 0 v"

subsection \<open>Errors\<close>

text \<open>
  What a try block of the server can catch: an error object with its message and, for a
  file-system error, its code. \<open>new Error(m)\<close>, a TypeError and a SyntaxError have no code.
\<close>

datatype exn = Exn (code: "string option") (message: string)

definition new_Error :: "string \<Rightarrow> exn" where
  "new_Error m = Exn None m"

definition ENOENT :: "string \<Rightarrow> exn" where
  "ENOENT path =
     Exn (Some ''ENOENT'') (''ENOENT: no such file or directory, open '' @ [CHR 0x27] @ path @ [CHR 0x27])"

definition TypeError_undefined :: "string \<Rightarrow> exn" where
  \<comment> \<open>reading property p of undefined\<close>
  "TypeError_undefined p =
     Exn None (''Cannot read properties of undefined (reading '' @ [CHR 0x27] @ p @ [CHR 0x27] @ '')'')"

definition TypeError_null :: "string \<Rightarrow> exn" where
  \<comment> \<open>reading property p of null\<close>
  "TypeError_null p =
     Exn None (''Cannot read properties of null (reading '' @ [CHR 0x27] @ p @ [CHR 0x27] @ '')'')"

definition TypeError_not_a_function :: "string \<Rightarrow> exn" where
  \<comment> \<open>calling f, which is not a function\<close>
  "TypeError_not_a_function f = Exn None (f @ '' is not a function'')"

definition TypeError_primitive :: exn where
  \<comment> \<open>an object that neither toString nor valueOf turns into a primitive\<close>
  "TypeError_primitive = Exn None ''Cannot convert object to primitive value''"

text \<open>
  What leaves an operation of the server as a thrown error: an \<open>Error\<close> made by server.js
  with its message, a TypeError of the runtime that no try block caught, or one of the
  errors of the recorder, which the spec names by kind.
\<close>

datatype thrown =
    Error string
  | TypeError string
  | AlreadyRecordingError
  | NotRecordingError
  | EmptyRecordingError
  | UnresolvedReferenceError
  | PersistenceError

definition and_then :: "exn + 'a \<Rightarrow> ('a \<Rightarrow> exn + 'b) \<Rightarrow> exn + 'b" where
  \<comment> \<open>sequencing inside a try block: the first throw ends the block\<close>
  "and_then r f = (case r of Inl e \<Rightarrow> Inl e | Inr v \<Rightarrow> f v)"

fun collect :: "(exn + 'a) list \<Rightarrow> exn + 'a list" where
  \<comment> \<open>array.map with a callback that may throw\<close>
  "collect [] = Inr []"
| "collect (r # rs) =
     (case r of Inl e \<Rightarrow> Inl e
      | Inr v \<Rightarrow> (case collect rs of Inl e \<Rightarrow> Inl e | Inr vs \<Rightarrow> Inr (v # vs)))"

datatype content = TextContent string

datatype tool_result = ToolResult "content list"

definition text_result :: "string \<Rightarrow> tool_result" where
  \<comment> \<open>the object with content: [an item of type 'text' with this text]\<close>
  "text_result t = ToolResult [TextContent t]"

subsection \<open>Values in template literals, as property keys and as conditions\<close>

text \<open>
  A value that arrives in the arguments of a request, or out of JSON.parse, is a JSON value
  or is absent (undefined, \<open>None\<close>); numbers are integers. In a template literal and as
  a property key it is converted to a string: an array joins the strings of its elements
  with commas (null as the empty string); an object is "[object Object]" unless it has a
  key toString of its own, which is no function, so that the conversion throws a TypeError.
\<close>

fun to_string :: "json \<Rightarrow> exn + string" where
  "to_string JNull = Inr ''null''"
| "to_string (JBool b) = Inr (if b then ''true'' else ''false'')"
| "to_string (JNum n) = Inr (show_int n)"
| "to_string (JStr s) = Inr s"
| "to_string (JArr xs) =
     and_then (collect (map (\<lambda>x. if x = JNull then Inr [] else to_string x) xs))
       (\<lambda>ss. Inr (join ss '',''))"
| "to_string (JObj kvs) =
     (if ''toString'' \<in> set (map fst kvs) then Inl TypeError_primitive
      else Inr ''[object Object]'')"

definition template :: "json option \<Rightarrow> exn + string" where
  \<comment> \<open>the value inside a template literal, or as a property key\<close>
  "template v = (case v of None \<Rightarrow> Inr ''undefined'' | Some j \<Rightarrow> to_string j)"

definition value_truthy :: "json option \<Rightarrow> bool" where
  "value_truthy v = (case v of None \<Rightarrow> False | Some j \<Rightarrow> json_truthy j)"

definition value_toUpperCase :: "string \<Rightarrow> json option \<Rightarrow> exn + string" where
  \<comment> \<open>x.toUpperCase() for the variable named x: only a string has the method\<close>
  "value_toUpperCase x v =
     (case v of
        None \<Rightarrow> Inl (TypeError_undefined ''toUpperCase'')
      | Some JNull \<Rightarrow> Inl (TypeError_null ''toUpperCase'')
      | Some (JStr s) \<Rightarrow> Inr (toUpperCase s)
      | Some _ \<Rightarrow> Inl (TypeError_not_a_function (x @ ''.toUpperCase'')))"

definition value_replace :: "string \<Rightarrow> json option \<Rightarrow> string \<Rightarrow> string \<Rightarrow> exn + string" where
  \<comment> \<open>x.replace(pat, rep) for the variable or property named x\<close>
  "value_replace x v pat rep =
     (case v of
        None \<Rightarrow> Inl (TypeError_undefined ''replace'')
      | Some JNull \<Rightarrow> Inl (TypeError_null ''replace'')
      | Some (JStr s) \<Rightarrow> Inr (replace s pat rep)
      | Some _ \<Rightarrow> Inl (TypeError_not_a_function (x @ ''.replace'')))"

section \<open>Documents and files\<close>

text \<open>
  A workflow document and its steps, a credentials entry: the keys of the JSON object
  behind a prefix for the record (\<open>w_name\<close> is the key \<open>name\<close> of a workflow). A key
  that is absent (undefined) is \<open>None\<close>. The name and the description of a workflow
  are whatever value the document has there.
\<close>

record step =
  s_step :: int
  s_tool :: string
  s_description :: string
  s_arguments :: "json option"
  s_note :: "string option"

record workflow =
  w_name :: "json option"
  w_description :: "json option"
  w_steps :: "step list option"
  w_successCriteria :: "string list option"
  w_notes :: "string list option"

record credential =
  c_username :: "string option"
  c_email :: "string option"
  c_password :: "string option"
  c_loginUrl :: "string option"
  c_notes :: "string option"

text \<open>
  The text of a file, by what JSON.parse makes of it: a SyntaxError with its message, or
  the parsed value. A file is that text, or the error readFile fails with on it.
\<close>

datatype 'a data = Malformed string | Json 'a

type_synonym 'a disk_file = "exn + 'a data"

definition JSON_parse :: "'a data \<Rightarrow> exn + 'a" where
  "JSON_parse d = (case d of Malformed m \<Rightarrow> Inl (new_Error m) | Json v \<Rightarrow> Inr v)"

text \<open>
  The part of the file system the server reads and writes: the directory of the script, its
  credentials.json (absent when \<open>None\<close>), and its workflows directory as the list of its
  entries in readdir order, with the error readdir fails with, if any. Path normalisation
  by path.join is not modelled: a path is the directory, a slash and the file name.
\<close>

record disk =
  dirname :: string
  credentials :: "(string \<times> credential) list disk_file option"
  readdir_error :: "exn option"
  workflows :: "(string \<times> workflow disk_file) list"
  writable :: bool

definition path_join :: "string \<Rightarrow> string \<Rightarrow> string" where
  "path_join dir f = dir @ ''/'' @ f"

definition WORKFLOWS_DIR :: "disk \<Rightarrow> string" where
  "WORKFLOWS_DIR d = path_join (dirname d) ''workflows''"

definition CREDENTIALS_FILE :: "disk \<Rightarrow> string" where
  "CREDENTIALS_FILE d = path_join (dirname d) ''credentials.json''"

definition readFile_credentials :: "disk \<Rightarrow> exn + (string \<times> credential) list data" where
  "readFile_credentials d =
     (case credentials d of None \<Rightarrow> Inl (ENOENT (CREDENTIALS_FILE d)) | Some f \<Rightarrow> f)"

definition readFile_workflow :: "disk \<Rightarrow> string \<Rightarrow> exn + workflow data" where
  \<comment> \<open>readFile(join(WORKFLOWS_DIR, f), 'utf-8')\<close>
  "readFile_workflow d f =
     (case map_of (workflows d) f of
        None \<Rightarrow> Inl (ENOENT (path_join (WORKFLOWS_DIR d) f))
      | Some file \<Rightarrow> file)"

definition readdir :: "disk \<Rightarrow> exn + string list" where
  "readdir d = (case readdir_error d of Some e \<Rightarrow> Inl e | None \<Rightarrow> Inr (map fst (workflows d)))"

section \<open>Credentials management\<close>

text \<open>
  credentials[site] is the entry the parsed object has under the key, or, for a key that
  only Object.prototype has, what is inherited: a function or the prototype, which is
  truthy and has none of the fields of an entry.
\<close>

definition Object_prototype :: "string list" where
  "Object_prototype =
     [''constructor'', ''__defineGetter__'', ''__defineSetter__'', ''hasOwnProperty'',
      ''__lookupGetter__'', ''__lookupSetter__'', ''isPrototypeOf'', ''propertyIsEnumerable'',
      ''toString'', ''valueOf'', ''__proto__'', ''toLocaleString'']"

definition inherited :: credential where
  "inherited =
     \<lparr>c_username = None, c_email = None, c_password = None, c_loginUrl = None, c_notes = None\<rparr>"

definition credentials_at :: "(string \<times> credential) list \<Rightarrow> string \<Rightarrow> credential option" where
  "credentials_at creds key =
     (case map_of creds key of
        Some c \<Rightarrow> Some c
      | None \<Rightarrow> if key \<in> set Object_prototype then Some inherited else None)"

text \<open>
  In the definitions below \<open>site\<close> stands for the string that the argument site
  becomes in a template literal and as a key.
\<close>

definition no_credentials :: "string \<Rightarrow> (string \<times> credential) list \<Rightarrow> exn" where
  \<comment> \<open>the error thrown when credentials[site] is missing\<close>
  "no_credentials site creds =
     new_Error (
       ''No credentials found for: '' @ site @ ''\<newline>\<newline>'' @
       ''Available sites:\<newline>'' @ join (map (\<lambda>s. ''  - '' @ s) (map fst creds)) ''\<newline>'')"

definition credentials_text :: "string \<Rightarrow> credential \<Rightarrow> string" where
  "credentials_text site c =
     (let username = or_else (c_username c) (c_email c);
          fieldLabel = (if truthy (c_username c) then ''Username'' else ''Email'')
      in ''# Login Credentials: '' @ site @ ''\<newline>\<newline>'' @
         ''**'' @ fieldLabel @ '':** '' @ str username @ ''\<newline>'' @
         ''**Password:** '' @ str (c_password c) @ ''\<newline>'' @
         ''**Notes:** '' @ str (or_else (c_notes c) (Some ''N/A'')) @ ''\<newline>\<newline>'' @
         ''**Usage:**\<newline>'' @
         ''1. Navigate to login page\<newline>'' @
         ''2. Use browser_type to enter username/email: '' @ str username @ ''\<newline>'' @
         ''3. Use browser_type to enter password\<newline>'' @
         ''4. Click submit/login button\<newline>\<newline>'' @
         ''**Security Note:** Keep credentials.json private and never commit to git!'')"

definition getLoginCredentials_try :: "json option \<Rightarrow> disk \<Rightarrow> exn + tool_result" where
  "getLoginCredentials_try site d =
     and_then (readFile_credentials d) (\<lambda>data.
     and_then (JSON_parse data) (\<lambda>creds.
     and_then (template site) (\<lambda>key.
       case credentials_at creds key of
         None \<Rightarrow> Inl (no_credentials key creds)
       | Some c \<Rightarrow> Inr (text_result (credentials_text key c)))))"

definition file_not_found_text :: "disk \<Rightarrow> string" where
  \<open>file_not_found_text d =
     ''Credentials file not found at: '' @ CREDENTIALS_FILE d @ ''\<newline>\<newline>'' @
     ''Create credentials.json with format:\<newline>'' @
     ''{\<newline>'' @
     ''  "site-name": {\<newline>'' @
     ''    "username": "user@example.com",  // or "email": "user@example.com"\<newline>'' @
     ''    "password": "password",\<newline>'' @
     ''    "loginUrl": "https://example.com/login",\<newline>'' @
     ''    "notes": "Optional notes"\<newline>'' @
     ''  }\<newline>'' @
     ''}''\<close>

definition getLoginCredentials :: "json option \<Rightarrow> disk \<Rightarrow> thrown + tool_result" where
  "getLoginCredentials site d =
     (case getLoginCredentials_try site d of
        Inr r \<Rightarrow> Inr r
      | Inl error \<Rightarrow>
          if code error = Some ''ENOENT'' then Inl (Error (file_not_found_text d))
          else Inl (Error (''Failed to get credentials: '' @ message error)))"

definition no_username :: "string \<Rightarrow> exn" where
  \<open>no_username site =
     new_Error (
       ''No username/email found in credentials for '' @ site @ ''.\<newline>\<newline>'' @
       ''Please add "username" or "email" to credentials.json:\<newline>'' @
       ''{\<newline>'' @
       ''  "'' @ site @ ''": {\<newline>'' @
       ''    "username": "...",  // or "email": "..."\<newline>'' @
       ''    "password": "...",\<newline>'' @
       ''    "loginUrl": "https://www.'' @ site @ ''.com/login"\<newline>'' @
       ''  }\<newline>'' @
       ''}'')\<close>

definition no_loginUrl :: "string \<Rightarrow> exn" where
  \<open>no_loginUrl site =
     new_Error (
       ''No loginUrl configured for '' @ site @ ''.\<newline>\<newline>'' @
       ''Please add "loginUrl" to credentials.json:\<newline>'' @
       ''{\<newline>'' @
       ''  "'' @ site @ ''": {\<newline>'' @
       ''    "username": "...",\<newline>'' @
       ''    "password": "...",\<newline>'' @
       ''    "loginUrl": "https://www.'' @ site @ ''.com/login"\<newline>'' @
       ''  }\<newline>'' @
       ''}'')\<close>

definition login_summary :: "string \<Rightarrow> string \<Rightarrow> string \<Rightarrow> string" where
  \<comment> \<open>the head of the text: the credentials retrieved, and steps 1 and 2\<close>
  \<open>login_summary SITE username loginUrl =
     ''# Login to '' @ SITE @ ''\<newline>\<newline>'' @
     ''## Credentials Retrieved:\<newline>'' @
     ''- Username/Email: '' @ username @ ''\<newline>'' @
     ''- Password: [REDACTED]\<newline>'' @
     ''- Login URL: '' @ loginUrl @ ''\<newline>\<newline>'' @
     ''## Login Instructions:\<newline>'' @
     ''Follow these steps to complete login:\<newline>\<newline>'' @
     ''**Important:** Look for fields labeled "username", "email", "user", or "login" in the snapshot.\<newline>'' @
     ''Use the provided credentials regardless of the field label.\<newline>\<newline>'' @
     ''### Step 1: Navigate to Login Page\<newline>'' @
     ''```json\<newline>'' @
     ''{\<newline>'' @
     ''  "tool": "browser_navigate",\<newline>'' @
     ''  "arguments": {\<newline>'' @
     ''    "url": "'' @ loginUrl @ ''"\<newline>'' @
     ''  }\<newline>'' @
     ''}\<newline>'' @
     ''```\<newline>\<newline>'' @
     ''### Step 2: Take Snapshot\<newline>'' @
     ''```json\<newline>'' @
     ''{\<newline>'' @
     ''  "tool": "browser_snapshot",\<newline>'' @
     ''  "arguments": {}\<newline>'' @
     ''}\<newline>'' @
     ''```\<newline>'' @
     ''Find refs for username/email textbox, password textbox, and login/signin button.\<newline>\<newline>''\<close>

definition login_step3 :: "string \<Rightarrow> string" where
  \<open>login_step3 username =
     ''### Step 3: Enter Username/Email\<newline>'' @
     ''Use the username: '' @ username @ ''\<newline>'' @
     ''```json\<newline>'' @
     ''{\<newline>'' @
     ''  "tool": "browser_type",\<newline>'' @
     ''  "arguments": {\<newline>'' @
     ''    "element": "Username/Email textbox",\<newline>'' @
     ''    "ref": "{{USERNAME_EMAIL_REF}}",\<newline>'' @
     ''    "text": "'' @ username @ ''",\<newline>'' @
     ''    "submit": false\<newline>'' @
     ''  }\<newline>'' @
     ''}\<newline>'' @
     ''```\<newline>'' @
     ''Note: The field might be labeled as "username", "email", "user", or "login" - use whichever appears in the snapshot.\<newline>\<newline>''\<close>

definition login_step4 :: "string \<Rightarrow> string" where
  \<open>login_step4 password =
     ''### Step 4: Enter Password\<newline>'' @
     ''```json\<newline>'' @
     ''{\<newline>'' @
     ''  "tool": "browser_type",\<newline>'' @
     ''  "arguments": {\<newline>'' @
     ''    "element": "Password textbox",\<newline>'' @
     ''    "ref": "{{PASSWORD_REF}}",\<newline>'' @
     ''    "text": "'' @ password @ ''",\<newline>'' @
     ''    "submit": false\<newline>'' @
     ''  }\<newline>'' @
     ''}\<newline>'' @
     ''```\<newline>\<newline>''\<close>

definition login_rest :: string where
  \<open>login_rest =
     ''### Step 5: Click Login Button\<newline>'' @
     ''```json\<newline>'' @
     ''{\<newline>'' @
     ''  "tool": "browser_click",\<newline>'' @
     ''  "arguments": {\<newline>'' @
     ''    "element": "Sign in button",\<newline>'' @
     ''    "ref": "{{LOGIN_BUTTON_REF}}"\<newline>'' @
     ''  }\<newline>'' @
     ''}\<newline>'' @
     ''```\<newline>\<newline>'' @
     ''### Step 6: Verify Login Success\<newline>'' @
     ''```json\<newline>'' @
     ''{\<newline>'' @
     ''  "tool": "browser_snapshot",\<newline>'' @
     ''  "arguments": {}\<newline>'' @
     ''}\<newline>'' @
     ''```\<newline>'' @
     ''Check the snapshot to confirm you'' @ [CHR 0x27] @ ''re logged in (look for user name, account menu, or "Sign Out" link).\<newline>\<newline>'' @
     ''---\<newline>\<newline>'' @
     ''**Note:** Replace {{EMAIL_REF}}, {{PASSWORD_REF}}, and {{LOGIN_BUTTON_REF}} with actual refs from Step 2 snapshot.\<newline>\<newline>'' @
     ''**Security:** Credentials are retrieved from secure storage. Never log passwords.''\<close>

definition login_text :: "string \<Rightarrow> string \<Rightarrow> string \<Rightarrow> string \<Rightarrow> string" where
  \<comment> \<open>the template of the success result, in the order the source concatenates it\<close>
  "login_text SITE username password loginUrl =
     login_summary SITE username loginUrl @ login_step3 username @ login_step4 password @ login_rest"

definition loginToSite_try :: "json option \<Rightarrow> disk \<Rightarrow> exn + tool_result" where
  "loginToSite_try site d =
     and_then (readFile_credentials d) (\<lambda>data.
     and_then (JSON_parse data) (\<lambda>creds.
     and_then (template site) (\<lambda>key.
       case credentials_at creds key of
         None \<Rightarrow> Inl (no_credentials key creds)
       | Some c \<Rightarrow>
           let username = or_else (c_username c) (c_email c);
               password = c_password c;
               loginUrl = c_loginUrl c
           in if \<not> truthy username then Inl (no_username key)
              else if \<not> truthy loginUrl then Inl (no_loginUrl key)
              else and_then (value_toUpperCase ''site'' site) (\<lambda>SITE.
                     Inr (text_result
                       (login_text SITE (str username) (str password) (str loginUrl)))))))"

definition loginToSite :: "json option \<Rightarrow> disk \<Rightarrow> thrown + tool_result" where
  "loginToSite site d =
     (case loginToSite_try site d of
        Inr r \<Rightarrow> Inr r
      | Inl error \<Rightarrow> Inl (Error (''Failed to prepare login: '' @ message error)))"

section \<open>Workflow tools\<close>

subsection \<open>workflowFetch\<close>

definition json_of_step :: "step \<Rightarrow> json" where
  "json_of_step s =
     JObj ([(''step'', JNum (s_step s)), (''tool'', JStr (s_tool s)),
            (''description'', JStr (s_description s))]
       @ (case s_arguments s of None \<Rightarrow> [] | Some a \<Rightarrow> [(''arguments'', a)])
       @ (case s_note s of None \<Rightarrow> [] | Some n \<Rightarrow> [(''note'', JStr n)]))"

definition json_of_workflow :: "workflow \<Rightarrow> json" where
  \<comment> \<open>the parsed document as an object, its keys in the order of the document format\<close>
  "json_of_workflow w =
     JObj ((case w_name w of None \<Rightarrow> [] | Some n \<Rightarrow> [(''name'', n)])
       @ (case w_description w of None \<Rightarrow> [] | Some t \<Rightarrow> [(''description'', t)])
       @ (case w_steps w of None \<Rightarrow> [] | Some ss \<Rightarrow> [(''steps'', JArr (map json_of_step ss))])
       @ (case w_successCriteria w of None \<Rightarrow> [] | Some cs \<Rightarrow> [(''successCriteria'', JArr (map JStr cs))])
       @ (case w_notes w of None \<Rightarrow> [] | Some ns \<Rightarrow> [(''notes'', JArr (map JStr ns))]))"

definition step_text :: "step \<Rightarrow> string" where
  \<open>step_text s =
     ''### Step '' @ show_int (s_step s) @ '': '' @ s_description s @ ''\<newline>'' @
     ''- **Tool:** `'' @ s_tool s @ ''`\<newline>'' @
     ''- **Arguments:** ```json\<newline>'' @
       stringify (case s_arguments s of None \<Rightarrow> JObj []
                  | Some a \<Rightarrow> if json_truthy a then a else JObj []) @
       ''\<newline>```\<newline>'' @
     (if truthy (s_note s) then ''- **Note:** '' @ str (s_note s) @ ''\<newline>'' else []) @
     ''\<newline>''\<close>

definition or_empty :: "string list option \<Rightarrow> string list" where
  \<comment> \<open>an optional array || []\<close>
  "or_empty xs = (case xs of None \<Rightarrow> [] | Some ys \<Rightarrow> ys)"

definition fetch_text :: "workflow \<Rightarrow> exn + string" where
  \<comment> \<open>the text of the result; workflow.steps.length throws when steps is undefined\<close>
  \<open>fetch_text w =
     and_then (template (w_name w)) (\<lambda>name.
     and_then (template (w_description w)) (\<lambda>description.
       case w_steps w of
         None \<Rightarrow> Inl (TypeError_undefined ''length'')
       | Some ss \<Rightarrow> Inr (
           ''# Workflow: '' @ name @ ''\<newline>\<newline>'' @
           ''**Description:** '' @ description @ ''\<newline>\<newline>'' @
           ''**Steps:** '' @ show_nat (length ss) @ ''\<newline>\<newline>'' @
           ''## Workflow Steps\<newline>\<newline>'' @
           join (map step_text ss) [] @
           ''\<newline>## Success Criteria\<newline>\<newline>'' @
           join (map (\<lambda>c. ''- '' @ c) (or_empty (w_successCriteria w))) ''\<newline>'' @
           ''\<newline>\<newline>## Implementation Notes\<newline>\<newline>'' @
           join (map (\<lambda>n. ''- '' @ n) (or_empty (w_notes w))) ''\<newline>'' @
           ''\<newline>\<newline>---\<newline>\<newline>'' @
           ''**To execute this workflow:**\<newline>'' @
           ''1. Take snapshots to find current element refs\<newline>'' @
           ''2. Execute each step using the Playwright browser tools\<newline>'' @
           ''3. Adapt refs (like {{SEARCH_INPUT_REF}}) based on current page\<newline>'' @
           ''4. Verify success criteria at the end\<newline>\<newline>'' @
           ''**Full workflow JSON:**\<newline>```json\<newline>'' @ stringify (json_of_workflow w) @
           ''\<newline>```'')))\<close>

definition load_workflow :: "disk \<Rightarrow> string \<Rightarrow> exn + workflow" where
  \<comment> \<open>readFile and JSON.parse of the file of that name in the workflows directory\<close>
  "load_workflow d file_name = and_then (readFile_workflow d file_name) JSON_parse"

text \<open>
  In the two try blocks \<open>workflowName\<close> stands for the string the argument has become
  in the template literal that makes the path, before the try block.
\<close>

definition fetch_try :: "string \<Rightarrow> disk \<Rightarrow> exn + tool_result" where
  \<comment> \<open>the try block of workflowFetch\<close>
  "fetch_try workflowName d =
     and_then (load_workflow d (workflowName @ ''.json'')) (\<lambda>workflow.
     and_then (fetch_text workflow) (\<lambda>t. Inr (text_result t)))"

definition not_found_try :: "string \<Rightarrow> disk \<Rightarrow> exn + tool_result" where
  \<comment> \<open>the try block inside the catch clause: it lists the directory and ends by throwing\<close>
  "not_found_try workflowName d =
     and_then (readdir d) (\<lambda>files.
       let available = map (\<lambda>f. replace f ''.json'' []) (filter (\<lambda>f. endsWith f ''.json'') files)
       in Inl (new_Error (
            ''Workflow not found: '' @ workflowName @ ''\<newline>\<newline>'' @
            ''Available workflows:\<newline>'' @ join (map (\<lambda>w. ''  - '' @ w) available) ''\<newline>'')))"

definition workflowFetch :: "json option \<Rightarrow> disk \<Rightarrow> thrown + tool_result" where
  "workflowFetch workflowName d =
     (case template workflowName of
        Inl e \<Rightarrow> Inl (TypeError (message e))
      | Inr name \<Rightarrow>
          (case fetch_try name d of
             Inr r \<Rightarrow> Inr r
           | Inl error \<Rightarrow>
               if code error = Some ''ENOENT'' then
                 (case not_found_try name d of
                    Inr r \<Rightarrow> Inr r
                  | Inl _ \<Rightarrow> Inl (Error (''Workflow not found: '' @ name)))
               else Inl (Error (''Failed to fetch workflow: '' @ message error))))"

subsection \<open>workflowList\<close>

record entry =
  e_name :: "json option"
  e_description :: "json option"
  e_steps :: nat
  e_file :: string

definition degraded :: "string \<Rightarrow> entry" where
  \<comment> \<open>the entry made by the catch clause of the callback\<close>
  "degraded file_name =
     \<lparr>e_name = Some (JStr (replace file_name ''.json'' [])),
      e_description = Some (JStr ''Error loading workflow''),
      e_steps = 0,
      e_file = file_name\<rparr>"

definition list_entry :: "disk \<Rightarrow> string \<Rightarrow> entry" where
  \<comment> \<open>the callback of workflowFiles.map\<close>
  "list_entry d file_name =
     (case and_then (load_workflow d file_name) (\<lambda>workflow.
             case w_steps workflow of
               None \<Rightarrow> Inl (TypeError_undefined ''length'')
             | Some ss \<Rightarrow> Inr \<lparr>e_name = w_name workflow,
                               e_description = w_description workflow,
                               e_steps = length ss,
                               e_file = file_name\<rparr>) of
        Inr e \<Rightarrow> e
      | Inl error \<Rightarrow> degraded file_name)"

definition entry_text :: "nat \<times> entry \<Rightarrow> exn + string" where
  \<comment> \<open>the callback of workflows.map, on the index i and the entry w\<close>
  \<open>entry_text iw =
     (case iw of (i, w) \<Rightarrow>
        and_then (template (e_name w)) (\<lambda>name.
        and_then (template (e_description w)) (\<lambda>description.
        and_then (value_replace ''w.name'' (e_name w) ''rei-hiking-shoes-purchase'' ''rei-hiking-shoes'')
          (\<lambda>to_use. Inr (
            ''## '' @ show_nat (i + 1) @ ''. '' @ name @ ''\<newline>'' @
            ''- **Description:** '' @ description @ ''\<newline>'' @
            ''- **Steps:** '' @ show_nat (e_steps w) @ ''\<newline>'' @
            ''- **File:** `'' @ e_file w @ ''`\<newline>'' @
            ''\<newline>To use: `workflow_fetch("'' @ to_use @ ''")`\<newline>'')))))\<close>

definition list_text :: "entry list \<Rightarrow> exn + string" where
  "list_text ws =
     and_then (collect (map entry_text (enumerate 0 ws))) (\<lambda>ts. Inr (
       ''# Available Workflows\<newline>\<newline>'' @
       ''Found '' @ show_nat (length ws) @ '' workflow(s):\<newline>\<newline>'' @
       join ts ''\<newline>''))"

definition list_entries :: "disk \<Rightarrow> string list \<Rightarrow> entry list" where
  \<comment> \<open>the array workflows, from the names readdir returned\<close>
  "list_entries d files =
     (let workflowFiles = filter (\<lambda>f. endsWith f ''.json'') files
      in map (list_entry d) workflowFiles)"

definition list_try :: "disk \<Rightarrow> exn + tool_result" where
  "list_try d =
     and_then (readdir d) (\<lambda>files.
     and_then (list_text (list_entries d files)) (\<lambda>t. Inr (text_result t)))"

definition workflowList :: "disk \<Rightarrow> thrown + tool_result" where
  "workflowList d =
     (case list_try d of
        Inr r \<Rightarrow> Inr r
      | Inl error \<Rightarrow> Inl (Error (''Failed to list workflows: '' @ message error)))"

section \<open>The recorder\<close>

text \<open>
  Modelled from the spec: a node of an accessibility-tree snapshot, the shape the recorder
  depends on (tools/workflow-recorder.js, which server.js imports, is not among the
  sources): an ephemeral reference, a role, an accessible name, text content and children.
\<close>

datatype node =
  Node (node_ref: string) (role: string) (accessibleName: string) (textContent: string)
       (children: "node list")

text \<open>
  Modelled from the spec: the state of the recorder object that server.js imports from
  tools/workflow-recorder.js. It is the recording session of the spec: idle or active, and
  for the session its name, its ordered sequence of steps and the latest snapshot index.
  server.js calls generateWorkflow after saveWorkflow has ended the session and still
  prints the name and the steps, so the state is a flag beside the session data, and the
  data stay until the next start replaces them.
\<close>

record recorder =
  recording :: bool
  session_name :: "json option"
  session_steps :: "step list"
  snapshot_index :: "node option"

text \<open>
  Modelled from the spec: recorder.isRecording(), true while a session is active.
\<close>

definition isRecording :: "recorder \<Rightarrow> bool" where
  "isRecording r = recording r"

text \<open>
  Modelled from the spec: recorder.startRecording(name), the operation start(name). It
  fails with AlreadyRecordingError if a session is active; otherwise it transitions from
  idle to active, initializes an empty step sequence and stores the name, whatever value
  it is given.
\<close>

definition startRecording :: "json option \<Rightarrow> recorder \<Rightarrow> (thrown + unit) \<times> recorder" where
  "startRecording name r =
     (if isRecording r then (Inl AlreadyRecordingError, r)
      else (Inr (),
            \<lparr>recording = True, session_name = name, session_steps = [],
             snapshot_index = None\<rparr>))"

text \<open>
  Modelled from the spec: recorder.generateWorkflow(), the workflow that stop() builds
  from the session: its name, its steps in recording order, and a description defaulted
  from the name (server.js hands no description to the recorder; the spec gives no text
  for the default, and the name itself is taken). The advisory successCriteria and notes
  are absent.
\<close>

definition generateWorkflow :: "recorder \<Rightarrow> workflow" where
  "generateWorkflow r =
     \<lparr>w_name = session_name r,
      w_description = session_name r,
      w_steps = Some (session_steps r),
      w_successCriteria = None,
      w_notes = None\<rparr>"

text \<open>
  Modelled from the spec: the write that save performs on the directory. A document of
  the same name is overwritten where it stands; a new one is added at the end.
\<close>

fun write_file :: "(string \<times> 'a) list \<Rightarrow> string \<Rightarrow> 'a \<Rightarrow> (string \<times> 'a) list" where
  "write_file [] f v = [(f, v)]"
| "write_file ((g, u) # fs) f v = (if g = f then (f, v) # fs else (g, u) # write_file fs f v)"

text \<open>
  Modelled from the spec: save(workflow) of the workflow store, which the recorder calls
  with the directory server.js passes (always WORKFLOWS_DIR). It serializes the workflow
  to its persisted representation under its name, overwrites any existing document of the
  same name, returns the location, and fails with PersistenceError on write failure. What
  is written parses back to the workflow. A name that no template literal can turn into
  the file name fails with the TypeError of that conversion.
\<close>

definition save :: "string \<Rightarrow> workflow \<Rightarrow> disk \<Rightarrow> thrown + (string \<times> disk)" where
  "save dir w d =
     (case template (w_name w) of
        Inl e \<Rightarrow> Inl (TypeError (message e))
      | Inr name \<Rightarrow>
          (let file_name = name @ ''.json''
           in if \<not> writable d then Inl PersistenceError
              else Inr (path_join dir file_name,
                        d\<lparr>workflows := write_file (workflows d) file_name (Inr (Json w))\<rparr>)))"

text \<open>
  Modelled from the spec: recorder.saveWorkflow(dir), the operation stop(). It fails with
  NotRecordingError if idle and with EmptyRecordingError if the step sequence is empty;
  otherwise it builds the workflow, transitions from active to idle and persists the
  workflow through save, returning the location. A failed write happens after the
  transition to idle, as the spec's open question has it.
\<close>

definition saveWorkflow :: "string \<Rightarrow> recorder \<times> disk \<Rightarrow> (thrown + string) \<times> recorder \<times> disk" where
  "saveWorkflow dir rd =
     (case rd of (r, d) \<Rightarrow>
        if \<not> isRecording r then (Inl NotRecordingError, r, d)
        else if session_steps r = [] then (Inl EmptyRecordingError, r, d)
        else (let w = generateWorkflow r; r' = r\<lparr>recording := False\<rparr>
              in case save dir w d of
                   Inl e \<Rightarrow> (Inl e, r', d)
                 | Inr (location, d') \<Rightarrow> (Inr location, r', d')))"

text \<open>
  The five record operations of the recorder are not among the sources either;
  workflowRecordAction takes them as a parameter: each is given its arguments and may
  change the recorder and the disk, or throw.
\<close>

type_synonym effect = "recorder \<times> disk \<Rightarrow> (thrown + unit) \<times> recorder \<times> disk"

record recorder_ops =
  recordNavigate :: "json option \<Rightarrow> effect"
  recordClick :: "json option \<Rightarrow> json option \<Rightarrow> effect"
  recordType :: "json option \<Rightarrow> json option \<Rightarrow> json option \<Rightarrow> json option \<Rightarrow> effect"
  recordSelectOption :: "json option \<Rightarrow> json option \<Rightarrow> json option \<Rightarrow> effect"
  recordSnapshot :: "node option \<Rightarrow> effect"

section \<open>Recording tools\<close>

definition recording_started_text :: "string \<Rightarrow> string \<Rightarrow> string" where
  \<comment> \<open>on the strings that name and description || 'Auto-generated workflow' have become\<close>
  \<open>recording_started_text name description =
     [CHR 0xF0, CHR 0x9F, CHR 0x93, CHR 0xB9] @ '' **Recording Started**\<newline>\<newline>'' @
     ''Workflow: '' @ name @ ''\<newline>'' @
     ''Description: '' @ description @ ''\<newline>\<newline>'' @
     ''**What happens now:**\<newline>'' @
     ''- All browser actions will be recorded\<newline>'' @
     ''- Refs will be converted to semantic selectors automatically\<newline>'' @
     ''- Use `workflow_record_stop()` when done\<newline>\<newline>'' @
     ''**Tip:** Perform the actions you want to automate now!''\<close>

definition workflowRecordStart ::
    "json option \<Rightarrow> json option \<Rightarrow> recorder \<times> disk \<Rightarrow> (thrown + tool_result) \<times> recorder \<times> disk" where
  \<comment> \<open>the recorder is started first; the text is made after it, outside any try block\<close>
  "workflowRecordStart name description rd =
     (case rd of (r, d) \<Rightarrow>
        (case startRecording name r of
           (Inl e, r') \<Rightarrow> (Inl e, r', d)
         | (Inr u, r') \<Rightarrow>
             (case and_then (template name) (\<lambda>n.
                   and_then (template (if value_truthy description then description
                                       else Some (JStr ''Auto-generated workflow''))) (\<lambda>t.
                     Inr (recording_started_text n t))) of
                Inl e \<Rightarrow> (Inl (TypeError (message e)), r', d)
              | Inr t \<Rightarrow> (Inr (text_result t), r', d))))"

definition not_recording_text :: string where
  \<open>not_recording_text =
     [CHR 0xE2, CHR 0x9D, CHR 0x8C] @ '' **Not Recording**\<newline>\<newline>'' @
     ''No workflow recording in progress. Use `workflow_record_start(name)` to start.''\<close>

definition recording_stopped_text :: "workflow \<Rightarrow> string \<Rightarrow> exn + string" where
  \<comment> \<open>workflow.steps.length throws when steps is undefined\<close>
  \<open>recording_stopped_text w filePath =
     and_then (template (w_name w)) (\<lambda>name.
       case w_steps w of
         None \<Rightarrow> Inl (TypeError_undefined ''length'')
       | Some ss \<Rightarrow> Inr (
           [CHR 0xE2, CHR 0x8F, CHR 0xB9, CHR 0xEF, CHR 0xB8, CHR 0x8F] @
           ''  **Recording Stopped**\<newline>\<newline>'' @
           ''Workflow: '' @ name @ ''\<newline>'' @
           ''Steps recorded: '' @ show_nat (length ss) @ ''\<newline>'' @
           ''Saved to: '' @ filePath @ ''\<newline>\<newline>'' @
           ''**Steps:**\<newline>'' @
           join (map (\<lambda>s. show_int (s_step s) @ ''. '' @ s_description s) ss) ''\<newline>'' @
           ''\<newline>\<newline>**To use this workflow:**\<newline>'' @
           ''`workflow_fetch("'' @ name @ ''")`\<newline>\<newline>'' @
           ''**Workflow JSON:**\<newline>```json\<newline>'' @ stringify (json_of_workflow w) @
           ''\<newline>```''))\<close>

definition workflowRecordStop ::
    "recorder \<times> disk \<Rightarrow> (thrown + tool_result) \<times> recorder \<times> disk" where
  "workflowRecordStop rd =
     (case rd of (r, d) \<Rightarrow>
        if \<not> isRecording r then (Inr (text_result not_recording_text), r, d)
        else (case saveWorkflow (WORKFLOWS_DIR d) (r, d) of
                (Inl e, r', d') \<Rightarrow> (Inl e, r', d')
              | (Inr filePath, r', d') \<Rightarrow>
                  (let workflow = generateWorkflow r'
                   in case recording_stopped_text workflow filePath of
                        Inl e \<Rightarrow> (Inl (TypeError (message e)), r', d')
                      | Inr t \<Rightarrow> (Inr (text_result t), r', d'))))"

record action_params =
  p_url :: "json option"
  p_element :: "json option"
  p_ref :: "json option"
  p_text :: "json option"
  p_submit :: "json option"
  p_values :: "json option"
  p_snapshot :: "node option"

definition workflowRecordAction ::
    "recorder_ops \<Rightarrow> string \<Rightarrow> action_params \<Rightarrow> recorder \<times> disk \<Rightarrow> (thrown + unit) \<times> recorder \<times> disk" where
  "workflowRecordAction ops action params rd =
     (case rd of (r, d) \<Rightarrow>
        if \<not> isRecording r then (Inr (), r, d)
        else if action = ''navigate'' then recordNavigate ops (p_url params) (r, d)
        else if action = ''click'' then recordClick ops (p_element params) (p_ref params) (r, d)
        else if action = ''type'' then
          recordType ops (p_element params) (p_ref params) (p_text params) (p_submit params) (r, d)
        else if action = ''select_option'' then
          recordSelectOption ops (p_element params) (p_ref params) (p_values params) (r, d)
        else if action = ''snapshot'' then recordSnapshot ops (p_snapshot params) (r, d)
        else (Inr (), r, d))"

section \<open>The request handlers of the server\<close>

record tool_descriptor =
  t_name :: string
  t_description :: string
  t_properties :: "(string \<times> string \<times> string) list"
  t_required :: "string list"

definition ListTools_handler :: "tool_descriptor list" where
  \<comment> \<open>the handler of ListToolsRequestSchema; a property is its name, type and description\<close>
  \<open>ListTools_handler =
     [\<lparr>t_name = ''login_to_site'',
       t_description = ''Get complete login instructions with credentials for a specific website. Returns step-by-step guide to navigate, enter credentials, and verify login success. This is a modular login helper that workflows can call instead of implementing login steps manually.'',
       t_properties = [(''site'', ''string'', ''Name of the site to login to (e.g., "rei", "amazon")'')],
       t_required = [''site'']\<rparr>,
      \<lparr>t_name = ''get_login_credentials'',
       t_description = ''Retrieve stored login credentials for a specific website. Returns email and password that can be used with browser automation tools.'',
       t_properties = [(''site'', ''string'', ''Name of the site to get credentials for (e.g., "rei", "amazon")'')],
       t_required = [''site'']\<rparr>,
      \<lparr>t_name = ''workflow_fetch'',
       t_description = ''Fetch a saved automation workflow with detailed step-by-step instructions. Returns the workflow definition that can be executed using Playwright MCP tools.'',
       t_properties = [(''workflowName'', ''string'', ''Name of the workflow to fetch (e.g., "rei-hiking-shoes")'')],
       t_required = [''workflowName'']\<rparr>,
      \<lparr>t_name = ''workflow_list'',
       t_description = ''List all available saved workflows'',
       t_properties = [],
       t_required = []\<rparr>,
      \<lparr>t_name = ''workflow_record_start'',
       t_description = ''Start recording a new workflow. All subsequent browser actions will be captured and converted to semantic selectors automatically.'',
       t_properties = [(''name'', ''string'', ''Name for the workflow (e.g., "amazon-add-to-cart")''),
                       (''description'', ''string'', ''Optional description of what this workflow does'')],
       t_required = [''name'']\<rparr>,
      \<lparr>t_name = ''workflow_record_stop'',
       t_description = ''Stop recording the current workflow and save it. Returns the generated workflow with semantic selectors.'',
       t_properties = [],
       t_required = []\<rparr>]\<close>

text \<open>
  The arguments object of a call: under each key the handler reads it has any JSON value,
  or nothing. The server validates none of them.
\<close>

record tool_args =
  a_site :: "json option"
  a_workflowName :: "json option"
  a_name :: "json option"
  a_description :: "json option"

definition CallTool_handler ::
    "string \<Rightarrow> tool_args \<Rightarrow> recorder \<times> disk \<Rightarrow> (thrown + tool_result) \<times> recorder \<times> disk" where
  \<comment> \<open>the handler of CallToolRequestSchema: there is no try block in it\<close>
  "CallTool_handler name args rd =
     (case rd of (r, d) \<Rightarrow>
        if name = ''login_to_site'' then (loginToSite (a_site args) d, r, d)
        else if name = ''get_login_credentials'' then (getLoginCredentials (a_site args) d, r, d)
        else if name = ''workflow_fetch'' then (workflowFetch (a_workflowName args) d, r, d)
        else if name = ''workflow_list'' then (workflowList d, r, d)
        else if name = ''workflow_record_start'' then
          workflowRecordStart (a_name args) (a_description args) (r, d)
        else if name = ''workflow_record_stop'' then workflowRecordStop (r, d)
        else (Inl (Error (''Unknown tool: '' @ name)), r, d))"

text \<open>
  Modelled from the spec: the Server of the SDK (@modelcontextprotocol/sdk, not among the
  sources), with which server.js registers the two handlers and which it connects to the
  transport. To a call request it answers with what the handler returns or, when the
  handler throws, with a structured error that carries what was thrown, its kind and its
  message verbatim; the caller gets one of the two, whatever the handler does.
\<close>

datatype response = Success tool_result | Failure thrown

definition tools_call ::
    "string \<Rightarrow> tool_args \<Rightarrow> recorder \<times> disk \<Rightarrow> response \<times> recorder \<times> disk" where
  "tools_call name args rd =
     (case CallTool_handler name args rd of
        (Inl e, rd') \<Rightarrow> (Failure e, rd')
      | (Inr result, rd') \<Rightarrow> (Success result, rd'))"

section \<open>Example states\<close>

definition idle :: recorder where
  "idle = \<lparr>recording = False, session_name = None, session_steps = [], snapshot_index = None\<rparr>"

definition checkout_steps :: "step list" where
  \<open>checkout_steps =
     [\<lparr>s_step = 1, s_tool = ''navigate'', s_description = ''Navigate to https://shop.test/cart'',
       s_arguments = Some (JObj [(''url'', JStr ''https://shop.test/cart'')]), s_note = None\<rparr>,
      \<lparr>s_step = 2, s_tool = ''click'', s_description = ''Click Checkout button'',
       s_arguments = Some (JObj [(''role'', JStr ''button''), (''accessibleName'', JStr ''Checkout''),
                                 (''ordinal'', JNum 0)]),
       s_note = None\<rparr>]\<close>

definition checkout :: workflow where
  "checkout =
     \<lparr>w_name = Some (JStr ''checkout''),
      w_description = Some (JStr ''Buy what is in the cart''),
      w_steps = Some checkout_steps,
      w_successCriteria = None,
      w_notes = None\<rparr>"

definition recording_checkout :: recorder where
  \<comment> \<open>an active session that has recorded two steps\<close>
  "recording_checkout =
     \<lparr>recording = True, session_name = Some (JStr ''checkout''), session_steps = checkout_steps,
      snapshot_index = None\<rparr>"

definition throwing_ops :: recorder_ops where
  \<comment> \<open>record operations that would throw on every call\<close>
  "throwing_ops =
     \<lparr>recordNavigate = (\<lambda>url rd. (Inl UnresolvedReferenceError, rd)),
      recordClick = (\<lambda>element ref rd. (Inl UnresolvedReferenceError, rd)),
      recordType = (\<lambda>element ref txt submit rd. (Inl UnresolvedReferenceError, rd)),
      recordSelectOption = (\<lambda>element ref vals rd. (Inl UnresolvedReferenceError, rd)),
      recordSnapshot = (\<lambda>snapshot rd. (Inl UnresolvedReferenceError, rd))\<rparr>"

definition click_params :: action_params where
  "click_params =
     \<lparr>p_url = None, p_element = Some (JStr ''Checkout button''), p_ref = Some (JStr ''ref-7''),
      p_text = None, p_submit = None, p_values = None, p_snapshot = None\<rparr>"

definition shop_disk :: disk where
  \<open>shop_disk =
     \<lparr>dirname = ''/srv/custom-mcp-server'',
      credentials = Some (Inr (Json
        [(''rei'', \<lparr>c_username = None, c_email = Some ''hiker@example.com'',
                   c_password = Some ''s3cret!'', c_loginUrl = Some ''https://www.rei.com/login'',
                   c_notes = None\<rparr>)])),
      readdir_error = None,
      workflows = [(''broken.json'', Inr (Malformed ''Unexpected end of JSON input'')),
                   (''checkout.json'', Inr (Json checkout))],
      writable = True\<rparr>\<close>

definition args_of :: "string \<Rightarrow> tool_args" where
  \<comment> \<open>an arguments object with the one key that every operation reads set to the same string\<close>
  "args_of x =
     \<lparr>a_site = Some (JStr x), a_workflowName = Some (JStr x), a_name = Some (JStr x),
      a_description = None\<rparr>"

definition unprintable :: json where
  \<comment> \<open>an object that no template literal can turn into a string\<close>
  "unprintable = JObj [(''toString'', JNum 1)]"

definition returns :: workflow where
  \<open>returns =
     \<lparr>w_name = Some (JStr ''returns''),
      w_description = Some (JStr ''Send an order back''),
      w_steps = Some
        [\<lparr>s_step = 1, s_tool = ''navigate'', s_description = ''Navigate to https://shop.test/orders'',
          s_arguments = Some (JObj [(''url'', JStr ''https://shop.test/orders'')]),
          s_note = Some ''Log in first''\<rparr>],
      w_successCriteria = Some [''The return label is shown''],
      w_notes = None\<rparr>\<close>

section \<open>What leaves the operations as an error\<close>

lemma template_string: "template (map_option JStr x) = Inr (str x)"
  by (cases x) (simp_all add: template_def str_def)

lemma loginToSite_throws:
  "loginToSite site d = Inl e \<Longrightarrow> \<exists>m. e = Error (''Failed to prepare login: '' @ m)"
  by (auto simp: loginToSite_def split: sum.splits)

lemma getLoginCredentials_throws:
  "getLoginCredentials site d = Inl e \<Longrightarrow>
     e = Error (file_not_found_text d) \<or> (\<exists>m. e = Error (''Failed to get credentials: '' @ m))"
  by (auto simp: getLoginCredentials_def split: sum.splits if_splits)

lemma workflowFetch_throws:
  "workflowFetch v d = Inl e \<Longrightarrow>
     (\<exists>n. e = Error (''Workflow not found: '' @ n))
     \<or> (\<exists>m. e = Error (''Failed to fetch workflow: '' @ m)) \<or> (\<exists>m. e = TypeError m)"
  by (auto simp: workflowFetch_def split: sum.splits if_splits)

lemma workflowList_throws:
  "workflowList d = Inl e \<Longrightarrow> \<exists>m. e = Error (''Failed to list workflows: '' @ m)"
  by (auto simp: workflowList_def split: sum.splits)

lemma workflowRecordStart_throws:
  "fst (workflowRecordStart n t rd) = Inl e \<Longrightarrow> e = AlreadyRecordingError \<or> (\<exists>m. e = TypeError m)"
  by (auto simp: workflowRecordStart_def startRecording_def split: prod.splits sum.splits if_splits)

lemma save_throws:
  "save dir w d = Inl e \<Longrightarrow> e = PersistenceError \<or> (\<exists>m. e = TypeError m)"
  by (auto simp: save_def Let_def split: sum.splits if_splits)

lemma saveWorkflow_throws:
  "isRecording r \<Longrightarrow> fst (saveWorkflow dir (r, d)) = Inl e \<Longrightarrow>
     e = EmptyRecordingError \<or> e = PersistenceError \<or> (\<exists>m. e = TypeError m)"
  by (auto simp: saveWorkflow_def Let_def dest: save_throws split: sum.splits if_splits prod.splits)

lemma workflowRecordStop_throws:
  "fst (workflowRecordStop rd) = Inl e \<Longrightarrow>
     e = EmptyRecordingError \<or> e = PersistenceError \<or> (\<exists>m. e = TypeError m)"
proof -
  obtain r d where rd: "rd = (r, d)" by (cases rd)
  assume thrown: "fst (workflowRecordStop rd) = Inl e"
  show ?thesis
  proof (cases "isRecording r")
    case False
    with thrown rd show ?thesis by (simp add: workflowRecordStop_def)
  next
    case True
    obtain res r' d' where sw: "saveWorkflow (WORKFLOWS_DIR d) (r, d) = (res, r', d')"
      by (cases "saveWorkflow (WORKFLOWS_DIR d) (r, d)") auto
    show ?thesis
    proof (cases res)
      case (Inl e')
      with thrown rd True sw have "e = e'" by (simp add: workflowRecordStop_def)
      moreover from sw Inl have "fst (saveWorkflow (WORKFLOWS_DIR d) (r, d)) = Inl e'" by simp
      ultimately show ?thesis using saveWorkflow_throws[OF True] by blast
    next
      case (Inr p)
      with thrown rd True sw show ?thesis
        by (auto simp: workflowRecordStop_def Let_def split: sum.splits)
    qed
  qed
qed

lemma declared_names:
  "map t_name ListTools_handler =
     [''login_to_site'', ''get_login_credentials'', ''workflow_fetch'', ''workflow_list'',
      ''workflow_record_start'', ''workflow_record_stop'']"
  by (simp add: ListTools_handler_def)

lemma declared_cases:
  "name \<in> set (map t_name ListTools_handler) \<Longrightarrow>
     name = ''login_to_site'' \<or> name = ''get_login_credentials'' \<or> name = ''workflow_fetch''
     \<or> name = ''workflow_list'' \<or> name = ''workflow_record_start''
     \<or> name = ''workflow_record_stop''"
  unfolding declared_names by simp

lemma route_login:
  "CallTool_handler ''login_to_site'' args (r, d) = (loginToSite (a_site args) d, r, d)"
  by (simp add: CallTool_handler_def)

lemma route_credentials:
  "CallTool_handler ''get_login_credentials'' args (r, d) = (getLoginCredentials (a_site args) d, r, d)"
  by (simp add: CallTool_handler_def)

lemma route_fetch:
  "CallTool_handler ''workflow_fetch'' args (r, d) = (workflowFetch (a_workflowName args) d, r, d)"
  by (simp add: CallTool_handler_def)

lemma route_list:
  "CallTool_handler ''workflow_list'' args (r, d) = (workflowList d, r, d)"
  by (simp add: CallTool_handler_def)

lemma route_start:
  "CallTool_handler ''workflow_record_start'' args (r, d) =
     workflowRecordStart (a_name args) (a_description args) (r, d)"
  by (simp add: CallTool_handler_def)

lemma route_stop:
  "CallTool_handler ''workflow_record_stop'' args (r, d) = workflowRecordStop (r, d)"
  by (simp add: CallTool_handler_def)

lemma route_unknown:
  "name \<notin> set (map t_name ListTools_handler) \<Longrightarrow>
     CallTool_handler name args (r, d) = (Inl (Error (''Unknown tool: '' @ name)), r, d)"
  unfolding declared_names by (simp add: CallTool_handler_def)

lemma declared_throws:
  assumes "name \<in> set (map t_name ListTools_handler)"
    and "fst (CallTool_handler name args (r, d)) = Inl e"
  shows "(\<exists>m. e = Error (''Failed to prepare login: '' @ m))
       \<or> (\<exists>m. e = Error (''Failed to get credentials: '' @ m))
       \<or> (\<exists>m. e = Error (''Credentials file not found at: '' @ m))
       \<or> (\<exists>m. e = Error (''Workflow not found: '' @ m))
       \<or> (\<exists>m. e = Error (''Failed to fetch workflow: '' @ m))
       \<or> (\<exists>m. e = Error (''Failed to list workflows: '' @ m))
       \<or> (\<exists>m. e = TypeError m)
       \<or> e = AlreadyRecordingError \<or> e = EmptyRecordingError \<or> e = PersistenceError"
proof -
  from declared_cases[OF assms(1)] consider "name = ''login_to_site''" | "name = ''get_login_credentials''"
    | "name = ''workflow_fetch''" | "name = ''workflow_list''"
    | "name = ''workflow_record_start''" | "name = ''workflow_record_stop''"
    by (elim disjE)
  then show ?thesis
  proof cases
    case 1
    with assms(2) have "loginToSite (a_site args) d = Inl e"
      by (simp only: route_login fst_conv)
    from loginToSite_throws[OF this] show ?thesis by blast
  next
    case 2
    with assms(2) have "getLoginCredentials (a_site args) d = Inl e"
      by (simp only: route_credentials fst_conv)
    from getLoginCredentials_throws[OF this] show ?thesis
      unfolding file_not_found_text_def by blast
  next
    case 3
    with assms(2) have "workflowFetch (a_workflowName args) d = Inl e"
      by (simp only: route_fetch fst_conv)
    from workflowFetch_throws[OF this] show ?thesis by blast
  next
    case 4
    with assms(2) have "workflowList d = Inl e"
      by (simp only: route_list fst_conv)
    from workflowList_throws[OF this] show ?thesis by blast
  next
    case 5
    with assms(2) have "fst (workflowRecordStart (a_name args) (a_description args) (r, d)) = Inl e"
      by (simp only: route_start)
    from workflowRecordStart_throws[OF this] show ?thesis by blast
  next
    case 6
    with assms(2) have "fst (workflowRecordStop (r, d)) = Inl e"
      by (simp only: route_stop)
    from workflowRecordStop_throws[OF this] show ?thesis by blast
  qed
qed

section \<open>The dispatcher\<close>

text \<open>
  C4. For every operation name, a call fails with the unknown-operation error (the Error
  with the message "Unknown tool: " and the name) exactly when the name is not in the
  catalog the list handler returns. The catalog has six names, and the call handler routes
  each of them to its operation: the call is what that operation returns or throws, on the
  arguments of the call, and leaves the recorder and the disk as the operation leaves them.
\<close>

theorem catalog_is_what_call_routes:
  "(fst (CallTool_handler name args (r, d)) = Inl (Error (''Unknown tool: '' @ name))
      \<longleftrightarrow> name \<notin> set (map t_name ListTools_handler))
   \<and> map t_name ListTools_handler =
       [''login_to_site'', ''get_login_credentials'', ''workflow_fetch'', ''workflow_list'',
        ''workflow_record_start'', ''workflow_record_stop'']
   \<and> CallTool_handler ''login_to_site'' args (r, d) = (loginToSite (a_site args) d, r, d)
   \<and> CallTool_handler ''get_login_credentials'' args (r, d)
       = (getLoginCredentials (a_site args) d, r, d)
   \<and> CallTool_handler ''workflow_fetch'' args (r, d) = (workflowFetch (a_workflowName args) d, r, d)
   \<and> CallTool_handler ''workflow_list'' args (r, d) = (workflowList d, r, d)
   \<and> CallTool_handler ''workflow_record_start'' args (r, d)
       = workflowRecordStart (a_name args) (a_description args) (r, d)
   \<and> CallTool_handler ''workflow_record_stop'' args (r, d) = workflowRecordStop (r, d)"
proof (intro conjI)
  show "fst (CallTool_handler name args (r, d)) = Inl (Error (''Unknown tool: '' @ name))
      \<longleftrightarrow> name \<notin> set (map t_name ListTools_handler)"
  proof
    assume thrown: "fst (CallTool_handler name args (r, d)) = Inl (Error (''Unknown tool: '' @ name))"
    show "name \<notin> set (map t_name ListTools_handler)"
    proof
      assume "name \<in> set (map t_name ListTools_handler)"
      from declared_throws[OF this thrown] show False by simp
    qed
  next
    assume "name \<notin> set (map t_name ListTools_handler)"
    then show "fst (CallTool_handler name args (r, d)) = Inl (Error (''Unknown tool: '' @ name))"
      by (simp add: route_unknown)
  qed
qed (rule declared_names route_login route_credentials route_fetch route_list route_start
      route_stop)+

theorem catalog_is_what_call_routes_witness:
  "''workflow_delete'' \<notin> set (map t_name ListTools_handler)
   \<and> fst (CallTool_handler ''workflow_delete'' (args_of ''checkout'') (idle, shop_disk))
       = Inl (Error ''Unknown tool: workflow_delete'')
   \<and> ''workflow_list'' \<in> set (map t_name ListTools_handler)
   \<and> fst (CallTool_handler ''workflow_list'' (args_of ''checkout'') (idle, shop_disk))
       \<noteq> Inl (Error ''Unknown tool: workflow_list'')"
proof -
  have undeclared: "''workflow_delete'' \<notin> set (map t_name ListTools_handler)"
    unfolding declared_names by simp
  have declared: "''workflow_list'' \<in> set (map t_name ListTools_handler)"
    unfolding declared_names by simp
  from catalog_is_what_call_routes [of "''workflow_delete''" "args_of ''checkout''" idle shop_disk,
      THEN conjunct1, THEN iffD2, OF undeclared]
  have 1: "fst (CallTool_handler ''workflow_delete'' (args_of ''checkout'') (idle, shop_disk))
        = Inl (Error (''Unknown tool: '' @ ''workflow_delete''))" .
  from catalog_is_what_call_routes [of "''workflow_list''" "args_of ''checkout''" idle shop_disk,
      THEN conjunct1] declared
  have 2: "fst (CallTool_handler ''workflow_list'' (args_of ''checkout'') (idle, shop_disk))
        \<noteq> Inl (Error (''Unknown tool: '' @ ''workflow_list''))"
    by (simp only: simp_thms)
  from undeclared declared 1 2 show ?thesis by simp
qed

lemma tools_call_Failure:
  "(fst (tools_call name args rd) = Failure e) = (fst (CallTool_handler name args rd) = Inl e)"
  by (cases "CallTool_handler name args rd"; cases "fst (CallTool_handler name args rd)")
     (auto simp: tools_call_def)

text \<open>
  C1. For every declared operation name and every arguments object, the caller gets a
  structured error exactly when the operation the call is routed to raises an error, and
  the structured error carries that error, its message unchanged. Whatever the operation
  does, the caller gets a result or a structured error, also when an argument makes a
  template literal outside any try block throw a TypeError.
\<close>

theorem call_answers_structured:
  assumes "name \<in> set (map t_name ListTools_handler)"
  shows "((fst (tools_call name args (r, d)) = Failure e) =
          (name = ''login_to_site'' \<and> loginToSite (a_site args) d = Inl e
         \<or> name = ''get_login_credentials'' \<and> getLoginCredentials (a_site args) d = Inl e
         \<or> name = ''workflow_fetch'' \<and> workflowFetch (a_workflowName args) d = Inl e
         \<or> name = ''workflow_list'' \<and> workflowList d = Inl e
         \<or> name = ''workflow_record_start''
             \<and> fst (workflowRecordStart (a_name args) (a_description args) (r, d)) = Inl e
         \<or> name = ''workflow_record_stop'' \<and> fst (workflowRecordStop (r, d)) = Inl e))
       \<and> ((\<exists>result. fst (tools_call name args (r, d)) = Success result)
          \<or> (\<exists>thrown. fst (tools_call name args (r, d)) = Failure thrown))"
proof (rule conjI)
  from declared_cases[OF assms] consider "name = ''login_to_site''" | "name = ''get_login_credentials''"
    | "name = ''workflow_fetch''" | "name = ''workflow_list''"
    | "name = ''workflow_record_start''" | "name = ''workflow_record_stop''"
    by (elim disjE)
  then show "(fst (tools_call name args (r, d)) = Failure e) =
          (name = ''login_to_site'' \<and> loginToSite (a_site args) d = Inl e
         \<or> name = ''get_login_credentials'' \<and> getLoginCredentials (a_site args) d = Inl e
         \<or> name = ''workflow_fetch'' \<and> workflowFetch (a_workflowName args) d = Inl e
         \<or> name = ''workflow_list'' \<and> workflowList d = Inl e
         \<or> name = ''workflow_record_start''
             \<and> fst (workflowRecordStart (a_name args) (a_description args) (r, d)) = Inl e
         \<or> name = ''workflow_record_stop'' \<and> fst (workflowRecordStop (r, d)) = Inl e)"
  proof cases
    case 1 then show ?thesis by (simp add: tools_call_Failure route_login)
  next
    case 2 then show ?thesis by (simp add: tools_call_Failure route_credentials)
  next
    case 3 then show ?thesis by (simp add: tools_call_Failure route_fetch)
  next
    case 4 then show ?thesis by (simp add: tools_call_Failure route_list)
  next
    case 5 then show ?thesis by (simp add: tools_call_Failure route_start)
  next
    case 6 then show ?thesis by (simp add: tools_call_Failure route_stop)
  qed
next
  show "(\<exists>result. fst (tools_call name args (r, d)) = Success result)
          \<or> (\<exists>thrown. fst (tools_call name args (r, d)) = Failure thrown)"
    by (cases "fst (tools_call name args (r, d))") simp_all
qed

theorem call_answers_structured_witness:
  "''workflow_fetch'' \<in> set (map t_name ListTools_handler)
   \<and> workflowFetch (Some unprintable) shop_disk
       = Inl (TypeError ''Cannot convert object to primitive value'')
   \<and> fst (tools_call ''workflow_fetch'' ((args_of ''checkout'')\<lparr>a_workflowName := Some unprintable\<rparr>)
            (idle, shop_disk))
       = Failure (TypeError ''Cannot convert object to primitive value'')"
proof -
  have declared: "''workflow_fetch'' \<in> set (map t_name ListTools_handler)"
    unfolding declared_names by simp
  have thrown: "workflowFetch (Some unprintable) shop_disk
       = Inl (TypeError ''Cannot convert object to primitive value'')"
    by (simp add: workflowFetch_def template_def unprintable_def TypeError_primitive_def)
  from call_answers_structured [OF declared,
      of "(args_of ''checkout'')\<lparr>a_workflowName := Some unprintable\<rparr>" idle shop_disk
         "TypeError ''Cannot convert object to primitive value''", THEN conjunct1]
    thrown
  have "fst (tools_call ''workflow_fetch'' ((args_of ''checkout'')\<lparr>a_workflowName := Some unprintable\<rparr>)
            (idle, shop_disk))
       = Failure (TypeError ''Cannot convert object to primitive value'')"
    by simp
  with declared thrown show ?thesis by simp
qed

section \<open>The workflow store\<close>

lemma not_found_try_throws: "not_found_try n d \<noteq> Inr x"
  by (simp add: not_found_try_def and_then_def Let_def split: sum.splits)

lemma not_found_message:
  assumes "template v = Inr n"
    and "map_of (workflows d) (n @ ''.json'') = None"
  shows "workflowFetch v d = Inl (Error (''Workflow not found: '' @ n))"
  using assms
  by (simp add: workflowFetch_def fetch_try_def load_workflow_def readFile_workflow_def
      and_then_def ENOENT_def not_found_try_throws split: sum.splits)

text \<open>
  C3 (the code at the failing input). The directory holds broken.json and checkout.json,
  and the listing names both. The try block of the catch clause builds the error that
  lists both names, and throws it inside the try block, so its own catch clause replaces
  it: workflowFetch fails with the message that names no workflow at all.
\<close>

theorem not_found_names_nothing:
  "map e_name (list_entries shop_disk (map fst (workflows shop_disk)))
     = [Some (JStr ''broken''), Some (JStr ''checkout'')]
   \<and> not_found_try ''nonexistent'' shop_disk
     = Inl (new_Error ''Workflow not found: nonexistent\<newline>\<newline>Available workflows:\<newline>  - broken\<newline>  - checkout'')
   \<and> workflowFetch (Some (JStr ''nonexistent'')) shop_disk
     = Inl (Error ''Workflow not found: nonexistent'')"
proof (intro conjI)
  show "map e_name (list_entries shop_disk (map fst (workflows shop_disk)))
     = [Some (JStr ''broken''), Some (JStr ''checkout'')]"
    by (simp add: list_entries_def list_entry_def load_workflow_def readFile_workflow_def
        shop_disk_def and_then_def JSON_parse_def degraded_def endsWith_def suffix_def
        checkout_def)
next
  show "not_found_try ''nonexistent'' shop_disk
     = Inl (new_Error ''Workflow not found: nonexistent\<newline>\<newline>Available workflows:\<newline>  - broken\<newline>  - checkout'')"
    by (simp add: not_found_try_def readdir_def shop_disk_def and_then_def endsWith_def
        suffix_def)
next
  have "template (Some (JStr ''nonexistent'')) = Inr ''nonexistent''"
    by (simp add: template_def)
  from not_found_message[OF this]
  show "workflowFetch (Some (JStr ''nonexistent'')) shop_disk
     = Inl (Error ''Workflow not found: nonexistent'')"
    by (simp add: shop_disk_def)
qed

lemma show_nat_0: "show_nat 0 = ''0''"
  by code_simp

lemma show_nat_1: "show_nat (Suc 0) = ''1''"
  by code_simp

lemma show_nat_2: "show_nat (Suc (Suc 0)) = ''2''"
  by code_simp

lemma join_concat: "join xs [] = concat xs"
  by (induction xs "[] :: string" rule: join.induct) simp_all

lemma load_malformed:
  "map_of (workflows d) f = Some (Inr (Malformed m)) \<Longrightarrow> load_workflow d f = Inl (new_Error m)"
  by (simp add: load_workflow_def readFile_workflow_def and_then_def JSON_parse_def)

lemma load_json:
  "map_of (workflows d) f = Some (Inr (Json w)) \<Longrightarrow> load_workflow d f = Inr w"
  by (simp add: load_workflow_def readFile_workflow_def and_then_def JSON_parse_def)

lemma list_entry_malformed:
  "map_of (workflows d) f = Some (Inr (Malformed m)) \<Longrightarrow> list_entry d f = degraded f"
  by (simp add: list_entry_def load_malformed and_then_def)

lemma list_entry_json:
  "map_of (workflows d) f = Some (Inr (Json w)) \<Longrightarrow> w_steps w = Some ss \<Longrightarrow>
     list_entry d f = \<lparr>e_name = w_name w, e_description = w_description w, e_steps = length ss,
                        e_file = f\<rparr>"
  by (simp add: list_entry_def load_json and_then_def)

lemma entry_text_strings:
  \<open>e_name w = Some (JStr n) \<Longrightarrow> e_description w = Some (JStr t) \<Longrightarrow>
     entry_text (i, w) = Inr (
       ''## '' @ show_nat (Suc i) @ ''. '' @ n @ ''\<newline>'' @
       ''- **Description:** '' @ t @ ''\<newline>'' @
       ''- **Steps:** '' @ show_nat (e_steps w) @ ''\<newline>'' @
       ''- **File:** `'' @ e_file w @ ''`\<newline>'' @
       ''\<newline>To use: `workflow_fetch("'' @
         replace n ''rei-hiking-shoes-purchase'' ''rei-hiking-shoes'' @ ''")`\<newline>'')\<close>
  by (simp add: entry_text_def and_then_def template_def value_replace_def)

lemma list_text_two:
  \<open>entry_text (0, a) = Inr ta \<Longrightarrow> entry_text (Suc 0, b) = Inr tb \<Longrightarrow>
     list_text [a, b] = Inr (
       ''# Available Workflows\<newline>\<newline>'' @ ''Found 2 workflow(s):\<newline>\<newline>'' @
       ta @ ''\<newline>'' @ tb)\<close>
  by (simp add: list_text_def and_then_def show_nat_2)

lemma workflowList_returns:
  "readdir_error d = None \<Longrightarrow> list_text (list_entries d (map fst (workflows d))) = Inr t \<Longrightarrow>
     workflowList d = Inr (text_result t)"
  by (simp add: workflowList_def list_try_def readdir_def and_then_def)


lemma list_two_entries:
  assumes "readdir_error d = None"
    and "filter (\<lambda>f. endsWith f ''.json'') (map fst (workflows d))
           = (if corrupt_first then [fc, fv] else [fv, fc])"
    and "map_of (workflows d) fc = Some (Inr (Malformed m))"
    and "map_of (workflows d) fv = Some (Inr (Json w))"
    and "w_name w = Some (JStr n)"
    and "w_description w = Some (JStr dsc)"
    and "w_steps w = Some ss"
  shows \<open>let corrupt = (\<lambda>i. ''## '' @ i @ ''. '' @ replace fc ''.json'' [] @ ''\<newline>'' @
                ''- **Description:** Error loading workflow\<newline>'' @
                ''- **Steps:** 0\<newline>'' @
                ''- **File:** `'' @ fc @ ''`\<newline>'' @
                ''\<newline>To use: `workflow_fetch("'' @
                  replace (replace fc ''.json'' []) ''rei-hiking-shoes-purchase'' ''rei-hiking-shoes'' @
                  ''")`\<newline>'');
             valid = (\<lambda>i. ''## '' @ i @ ''. '' @ n @ ''\<newline>'' @
                ''- **Description:** '' @ dsc @ ''\<newline>'' @
                ''- **Steps:** '' @ show_nat (length ss) @ ''\<newline>'' @
                ''- **File:** `'' @ fv @ ''`\<newline>'' @
                ''\<newline>To use: `workflow_fetch("'' @
                  replace n ''rei-hiking-shoes-purchase'' ''rei-hiking-shoes'' @ ''")`\<newline>'')
         in length (list_entries d (map fst (workflows d))) = 2
          \<and> set (list_entries d (map fst (workflows d)))
              = {\<lparr>e_name = Some (JStr (replace fc ''.json'' [])),
                   e_description = Some (JStr ''Error loading workflow''),
                   e_steps = 0, e_file = fc\<rparr>,
                 \<lparr>e_name = Some (JStr n), e_description = Some (JStr dsc),
                   e_steps = length ss, e_file = fv\<rparr>}
          \<and> workflowList d = Inr (text_result (
                ''# Available Workflows\<newline>\<newline>'' @ ''Found 2 workflow(s):\<newline>\<newline>'' @
                (if corrupt_first
                 then corrupt ''1'' @ ''\<newline>'' @ valid ''2''
                 else valid ''1'' @ ''\<newline>'' @ corrupt ''2'')))\<close>
proof -
  let ?dg = "\<lparr>e_name = Some (JStr (replace fc ''.json'' [])),
              e_description = Some (JStr ''Error loading workflow''), e_steps = 0, e_file = fc\<rparr>"
  let ?ev = "\<lparr>e_name = Some (JStr n), e_description = Some (JStr dsc), e_steps = length ss,
              e_file = fv\<rparr>"
  let ?es = "if corrupt_first then [?dg, ?ev] else [?ev, ?dg]"
  have dg: "list_entry d fc = ?dg"
    using list_entry_malformed[OF assms(3)] by (simp add: degraded_def)
  have ev: "list_entry d fv = ?ev"
    using list_entry_json[OF assms(4) assms(7)] assms(5) assms(6) by simp
  have es: "list_entries d (map fst (workflows d)) = ?es"
    unfolding list_entries_def Let_def assms(2) using dg ev by simp
  have rendered: "list_text ?es = Inr (
      ''# Available Workflows\<newline>\<newline>'' @ ''Found 2 workflow(s):\<newline>\<newline>'' @
      (if corrupt_first
       then projr (entry_text (0, ?dg)) @ ''\<newline>'' @ projr (entry_text (Suc 0, ?ev))
       else projr (entry_text (0, ?ev)) @ ''\<newline>'' @ projr (entry_text (Suc 0, ?dg))))"
    by (cases corrupt_first) (simp_all add: list_text_two entry_text_strings)
  have "workflowList d = Inr (text_result (
      ''# Available Workflows\<newline>\<newline>'' @ ''Found 2 workflow(s):\<newline>\<newline>'' @
      (if corrupt_first
       then projr (entry_text (0, ?dg)) @ ''\<newline>'' @ projr (entry_text (Suc 0, ?ev))
       else projr (entry_text (0, ?ev)) @ ''\<newline>'' @ projr (entry_text (Suc 0, ?dg)))))"
    using workflowList_returns[OF assms(1)] es rendered by simp
  moreover have "length ?es = 2" by simp
  moreover have "set ?es = {?dg, ?ev}" by auto
  ultimately show ?thesis
    unfolding es Let_def
    by (simp add: entry_text_strings show_nat_0 show_nat_1 show_nat_2)
qed

text \<open>
  C7. The storage holds exactly two documents (files whose name ends in .json): one whose
  text does not parse and one valid document, with a name, a description and steps. Then
  the listing has exactly two entries, and workflowList does not throw: it returns the
  text that announces 2 workflows and shows, in the order of the directory, the corrupt
  file with the description "Error loading workflow" and 0 steps, and the valid document
  with its name, its description and the length of its steps as its step count.
\<close>

theorem list_corrupt_and_valid:
  assumes "readdir_error d = None"
    and "filter (\<lambda>f. endsWith f ''.json'') (map fst (workflows d)) \<in> {[fc, fv], [fv, fc]}"
    and "map_of (workflows d) fc = Some (Inr (Malformed m))"
    and "map_of (workflows d) fv = Some (Inr (Json w))"
    and "w_name w = Some (JStr n)"
    and "w_description w = Some (JStr dsc)"
    and "w_steps w = Some ss"
  shows \<open>let corrupt = (\<lambda>i. ''## '' @ i @ ''. '' @ replace fc ''.json'' [] @ ''\<newline>'' @
                ''- **Description:** Error loading workflow\<newline>'' @
                ''- **Steps:** 0\<newline>'' @
                ''- **File:** `'' @ fc @ ''`\<newline>'' @
                ''\<newline>To use: `workflow_fetch("'' @
                  replace (replace fc ''.json'' []) ''rei-hiking-shoes-purchase'' ''rei-hiking-shoes'' @
                  ''")`\<newline>'');
             valid = (\<lambda>i. ''## '' @ i @ ''. '' @ n @ ''\<newline>'' @
                ''- **Description:** '' @ dsc @ ''\<newline>'' @
                ''- **Steps:** '' @ show_nat (length ss) @ ''\<newline>'' @
                ''- **File:** `'' @ fv @ ''`\<newline>'' @
                ''\<newline>To use: `workflow_fetch("'' @
                  replace n ''rei-hiking-shoes-purchase'' ''rei-hiking-shoes'' @ ''")`\<newline>'')
         in length (list_entries d (map fst (workflows d))) = 2
          \<and> set (list_entries d (map fst (workflows d)))
              = {\<lparr>e_name = Some (JStr (replace fc ''.json'' [])),
                   e_description = Some (JStr ''Error loading workflow''),
                   e_steps = 0, e_file = fc\<rparr>,
                 \<lparr>e_name = Some (JStr n), e_description = Some (JStr dsc),
                   e_steps = length ss, e_file = fv\<rparr>}
          \<and> workflowList d = Inr (text_result (
                ''# Available Workflows\<newline>\<newline>'' @ ''Found 2 workflow(s):\<newline>\<newline>'' @
                (if filter (\<lambda>f. endsWith f ''.json'') (map fst (workflows d)) = [fc, fv]
                 then corrupt ''1'' @ ''\<newline>'' @ valid ''2''
                 else valid ''1'' @ ''\<newline>'' @ corrupt ''2'')))\<close>
proof -
  let ?files = "filter (\<lambda>f. endsWith f ''.json'') (map fst (workflows d))"
  from assms(2) have "?files = [fc, fv] \<or> ?files = [fv, fc]"
    by (simp only: insert_iff empty_iff simp_thms)
  then have "?files = (if ?files = [fc, fv] then [fc, fv] else [fv, fc])"
    by (cases "?files = [fc, fv]") (simp_all only: if_True if_False simp_thms)
  from list_two_entries [OF assms(1) this assms(3) assms(4) assms(5) assms(6) assms(7)]
  show ?thesis .
qed

theorem list_corrupt_and_valid_witness:
  \<open>length (list_entries shop_disk (map fst (workflows shop_disk))) = 2
   \<and> set (list_entries shop_disk (map fst (workflows shop_disk)))
       = {\<lparr>e_name = Some (JStr ''broken''), e_description = Some (JStr ''Error loading workflow''),
            e_steps = 0, e_file = ''broken.json''\<rparr>,
          \<lparr>e_name = Some (JStr ''checkout''), e_description = Some (JStr ''Buy what is in the cart''),
            e_steps = 2, e_file = ''checkout.json''\<rparr>}
   \<and> workflowList shop_disk = Inr (text_result (
       ''# Available Workflows\<newline>'' @
       ''\<newline>'' @
       ''Found 2 workflow(s):\<newline>'' @
       ''\<newline>'' @
       ''## 1. broken\<newline>'' @
       ''- **Description:** Error loading workflow\<newline>'' @
       ''- **Steps:** 0\<newline>'' @
       ''- **File:** `broken.json`\<newline>'' @
       ''\<newline>'' @
       ''To use: `workflow_fetch("broken")`\<newline>'' @
       ''\<newline>'' @
       ''## 2. checkout\<newline>'' @
       ''- **Description:** Buy what is in the cart\<newline>'' @
       ''- **Steps:** 2\<newline>'' @
       ''- **File:** `checkout.json`\<newline>'' @
       ''\<newline>'' @
       ''To use: `workflow_fetch("checkout")`\<newline>''))\<close>
proof -
  have 1: "readdir_error shop_disk = None"
    by (simp add: shop_disk_def)
  have files: "filter (\<lambda>f. endsWith f ''.json'') (map fst (workflows shop_disk))
             = [''broken.json'', ''checkout.json'']"
    by (simp add: shop_disk_def endsWith_def suffix_def)
  then have 2: "filter (\<lambda>f. endsWith f ''.json'') (map fst (workflows shop_disk))
             \<in> {[''broken.json'', ''checkout.json''], [''checkout.json'', ''broken.json'']}"
    by simp
  have 3: "map_of (workflows shop_disk) ''broken.json''
             = Some (Inr (Malformed ''Unexpected end of JSON input''))"
    by (simp add: shop_disk_def)
  have 4: "map_of (workflows shop_disk) ''checkout.json'' = Some (Inr (Json checkout))"
    by (simp add: shop_disk_def)
  have 5: "w_name checkout = Some (JStr ''checkout'')"
    by (simp add: checkout_def)
  have 6: "w_description checkout = Some (JStr ''Buy what is in the cart'')"
    by (simp add: checkout_def)
  have 7: "w_steps checkout = Some checkout_steps"
    by (simp add: checkout_def)
  have 8: "length checkout_steps = 2"
    by (simp add: checkout_steps_def)
  from list_corrupt_and_valid [OF 1 2 3 4 5 6 7] show ?thesis
    unfolding Let_def files 8 by (simp add: show_nat_2 numeral_2_eq_2)
qed

lemma map_of_write_file: "map_of (write_file fs f v) f = Some v"
  by (induction fs) auto

lemma fetch_returns:
  "template v = Inr n \<Longrightarrow> load_workflow d (n @ ''.json'') = Inr w \<Longrightarrow> fetch_text w = Inr t \<Longrightarrow>
     workflowFetch v d = Inr (text_result t)"
  by (simp add: workflowFetch_def fetch_try_def and_then_def)

text \<open>
  C8. For every workflow document (a name, a description and steps), a save that succeeds
  followed by a fetch of the document's name reads back the document that was saved, and
  returns the text that shows its name, its description, the number of its steps and each
  step with its number, description, tool and arguments, and the document as JSON.
\<close>

theorem save_then_fetch:
  assumes \<open>save dir w d = Inr (location, d')\<close>
    and \<open>w_name w = Some (JStr n)\<close>
    and \<open>w_description w = Some (JStr dsc)\<close>
    and \<open>w_steps w = Some ss\<close>
  shows \<open>load_workflow d' (n @ ''.json'') = Inr w
       \<and> workflowFetch (Some (JStr n)) d' = Inr (text_result (
            ''# Workflow: '' @ n @ ''\<newline>\<newline>'' @
            ''**Description:** '' @ dsc @ ''\<newline>\<newline>'' @
            ''**Steps:** '' @ show_nat (length ss) @ ''\<newline>\<newline>'' @
            ''## Workflow Steps\<newline>\<newline>'' @
            concat (map (\<lambda>s. ''### Step '' @ show_int (s_step s) @ '': '' @ s_description s @ ''\<newline>'' @
                          ''- **Tool:** `'' @ s_tool s @ ''`\<newline>'' @
                          ''- **Arguments:** ```json\<newline>'' @
                            stringify (case s_arguments s of None \<Rightarrow> JObj []
                                       | Some a \<Rightarrow> if json_truthy a then a else JObj []) @
                            ''\<newline>```\<newline>'' @
                          (if truthy (s_note s) then ''- **Note:** '' @ str (s_note s) @ ''\<newline>''
                           else []) @
                          ''\<newline>'') ss) @
            ''\<newline>## Success Criteria\<newline>\<newline>'' @
            join (map (\<lambda>c. ''- '' @ c) (case w_successCriteria w of None \<Rightarrow> [] | Some cs \<Rightarrow> cs))
              ''\<newline>'' @
            ''\<newline>\<newline>## Implementation Notes\<newline>\<newline>'' @
            join (map (\<lambda>c. ''- '' @ c) (case w_notes w of None \<Rightarrow> [] | Some ns \<Rightarrow> ns))
              ''\<newline>'' @
            ''\<newline>\<newline>---\<newline>\<newline>'' @
            ''**To execute this workflow:**\<newline>'' @
            ''1. Take snapshots to find current element refs\<newline>'' @
            ''2. Execute each step using the Playwright browser tools\<newline>'' @
            ''3. Adapt refs (like {{SEARCH_INPUT_REF}}) based on current page\<newline>'' @
            ''4. Verify success criteria at the end\<newline>\<newline>'' @
            ''**Full workflow JSON:**\<newline>```json\<newline>'' @ stringify (json_of_workflow w) @
            ''\<newline>```''))\<close>
proof -
  have name: "template (w_name w) = Inr n"
    by (simp add: assms(2) template_def)
  from assms(1) have d': "d' = d\<lparr>workflows := write_file (workflows d) (n @ ''.json'') (Inr (Json w))\<rparr>"
    by (simp add: save_def name Let_def split: if_splits)
  have "map_of (workflows d') (n @ ''.json'') = Some (Inr (Json w))"
    unfolding d' by (simp add: map_of_write_file)
  then have loaded: "load_workflow d' (n @ ''.json'') = Inr w"
    by (rule load_json)
  have rendered: \<open>fetch_text w = Inr (
            ''# Workflow: '' @ n @ ''\<newline>\<newline>'' @
            ''**Description:** '' @ dsc @ ''\<newline>\<newline>'' @
            ''**Steps:** '' @ show_nat (length ss) @ ''\<newline>\<newline>'' @
            ''## Workflow Steps\<newline>\<newline>'' @
            concat (map (\<lambda>s. ''### Step '' @ show_int (s_step s) @ '': '' @ s_description s @ ''\<newline>'' @
                          ''- **Tool:** `'' @ s_tool s @ ''`\<newline>'' @
                          ''- **Arguments:** ```json\<newline>'' @
                            stringify (case s_arguments s of None \<Rightarrow> JObj []
                                       | Some a \<Rightarrow> if json_truthy a then a else JObj []) @
                            ''\<newline>```\<newline>'' @
                          (if truthy (s_note s) then ''- **Note:** '' @ str (s_note s) @ ''\<newline>''
                           else []) @
                          ''\<newline>'') ss) @
            ''\<newline>## Success Criteria\<newline>\<newline>'' @
            join (map (\<lambda>c. ''- '' @ c) (case w_successCriteria w of None \<Rightarrow> [] | Some cs \<Rightarrow> cs))
              ''\<newline>'' @
            ''\<newline>\<newline>## Implementation Notes\<newline>\<newline>'' @
            join (map (\<lambda>c. ''- '' @ c) (case w_notes w of None \<Rightarrow> [] | Some ns \<Rightarrow> ns))
              ''\<newline>'' @
            ''\<newline>\<newline>---\<newline>\<newline>'' @
            ''**To execute this workflow:**\<newline>'' @
            ''1. Take snapshots to find current element refs\<newline>'' @
            ''2. Execute each step using the Playwright browser tools\<newline>'' @
            ''3. Adapt refs (like {{SEARCH_INPUT_REF}}) based on current page\<newline>'' @
            ''4. Verify success criteria at the end\<newline>\<newline>'' @
            ''**Full workflow JSON:**\<newline>```json\<newline>'' @ stringify (json_of_workflow w) @
            ''\<newline>```'')\<close>
    by (simp add: fetch_text_def and_then_def template_def assms(2) assms(3) assms(4)
        join_concat step_text_def or_empty_def cong: map_cong)
  have "template (Some (JStr n)) = Inr n"
    by (simp add: template_def)
  from fetch_returns[OF this loaded rendered] loaded show ?thesis
    by (rule conjI[rotated])
qed

theorem save_then_fetch_witness:
  \<open>save (WORKFLOWS_DIR shop_disk) returns shop_disk
     = Inr (''/srv/custom-mcp-server/workflows/returns.json'',
            shop_disk\<lparr>workflows := workflows shop_disk @ [(''returns.json'', Inr (Json returns))]\<rparr>)
   \<and> load_workflow
         (shop_disk\<lparr>workflows := workflows shop_disk @ [(''returns.json'', Inr (Json returns))]\<rparr>)
         ''returns.json'' = Inr returns
   \<and> workflowFetch (Some (JStr ''returns''))
         (shop_disk\<lparr>workflows := workflows shop_disk @ [(''returns.json'', Inr (Json returns))]\<rparr>)
       = Inr (text_result (
       ''# Workflow: returns\<newline>'' @
       ''\<newline>'' @
       ''**Description:** Send an order back\<newline>'' @
       ''\<newline>'' @
       ''**Steps:** 1\<newline>'' @
       ''\<newline>'' @
       ''## Workflow Steps\<newline>'' @
       ''\<newline>'' @
       ''### Step 1: Navigate to https://shop.test/orders\<newline>'' @
       ''- **Tool:** `navigate`\<newline>'' @
       ''- **Arguments:** ```json\<newline>'' @
       ''{\<newline>'' @
       ''  "url": "https://shop.test/orders"\<newline>'' @
       ''}\<newline>'' @
       ''```\<newline>'' @
       ''- **Note:** Log in first\<newline>'' @
       ''\<newline>'' @
       ''\<newline>'' @
       ''## Success Criteria\<newline>'' @
       ''\<newline>'' @
       ''- The return label is shown\<newline>'' @
       ''\<newline>'' @
       ''## Implementation Notes\<newline>'' @
       ''\<newline>'' @
       ''\<newline>'' @
       ''\<newline>'' @
       ''---\<newline>'' @
       ''\<newline>'' @
       ''**To execute this workflow:**\<newline>'' @
       ''1. Take snapshots to find current element refs\<newline>'' @
       ''2. Execute each step using the Playwright browser tools\<newline>'' @
       ''3. Adapt refs (like {{SEARCH_INPUT_REF}}) based on current page\<newline>'' @
       ''4. Verify success criteria at the end\<newline>'' @
       ''\<newline>'' @
       ''**Full workflow JSON:**\<newline>'' @
       ''```json\<newline>'' @
       ''{\<newline>'' @
       ''  "name": "returns",\<newline>'' @
       ''  "description": "Send an order back",\<newline>'' @
       ''  "steps": [\<newline>'' @
       ''    {\<newline>'' @
       ''      "step": 1,\<newline>'' @
       ''      "tool": "navigate",\<newline>'' @
       ''      "description": "Navigate to https://shop.test/orders",\<newline>'' @
       ''      "arguments": {\<newline>'' @
       ''        "url": "https://shop.test/orders"\<newline>'' @
       ''      },\<newline>'' @
       ''      "note": "Log in first"\<newline>'' @
       ''    }\<newline>'' @
       ''  ],\<newline>'' @
       ''  "successCriteria": [\<newline>'' @
       ''    "The return label is shown"\<newline>'' @
       ''  ]\<newline>'' @
       ''}\<newline>'' @
       ''```''))\<close>
proof -
  let ?d' = "shop_disk\<lparr>workflows := workflows shop_disk @ [(''returns.json'', Inr (Json returns))]\<rparr>"
  have saved: "save (WORKFLOWS_DIR shop_disk) returns shop_disk
     = Inr (''/srv/custom-mcp-server/workflows/returns.json'', ?d')"
    by (simp add: save_def Let_def template_def WORKFLOWS_DIR_def path_join_def shop_disk_def
        returns_def)
  have 2: "w_name returns = Some (JStr ''returns'')"
    by (simp add: returns_def)
  have 3: "w_description returns = Some (JStr ''Send an order back'')"
    by (simp add: returns_def)
  have 4: \<open>w_steps returns = Some
        [\<lparr>s_step = 1, s_tool = ''navigate'', s_description = ''Navigate to https://shop.test/orders'',
          s_arguments = Some (JObj [(''url'', JStr ''https://shop.test/orders'')]),
          s_note = Some ''Log in first''\<rparr>]\<close>
    by (simp add: returns_def)
  have 5: "w_successCriteria returns = Some [''The return label is shown'']"
    by (simp add: returns_def)
  have 6: "w_notes returns = None"
    by (simp add: returns_def)
  have json: \<open>stringify (json_of_workflow returns) =
       ''{\<newline>'' @
       ''  "name": "returns",\<newline>'' @
       ''  "description": "Send an order back",\<newline>'' @
       ''  "steps": [\<newline>'' @
       ''    {\<newline>'' @
       ''      "step": 1,\<newline>'' @
       ''      "tool": "navigate",\<newline>'' @
       ''      "description": "Navigate to https://shop.test/orders",\<newline>'' @
       ''      "arguments": {\<newline>'' @
       ''        "url": "https://shop.test/orders"\<newline>'' @
       ''      },\<newline>'' @
       ''      "note": "Log in first"\<newline>'' @
       ''    }\<newline>'' @
       ''  ],\<newline>'' @
       ''  "successCriteria": [\<newline>'' @
       ''    "The return label is shown"\<newline>'' @
       ''  ]\<newline>'' @
       ''}''\<close>
    by code_simp
  have args: \<open>stringify (JObj [(''url'', JStr ''https://shop.test/orders'')]) =
       ''{\<newline>'' @ ''  "url": "https://shop.test/orders"\<newline>'' @ ''}''\<close>
    by code_simp
  have one: "show_int 1 = ''1''"
    by code_simp
  from save_then_fetch [OF saved 2 3 4] saved show ?thesis
    unfolding 5 6 json
    by (simp add: args one show_nat_1 truthy_def str_def json_truthy_def)
qed

section \<open>The recorder behind the recording tools\<close>

lemma value_truthy_string: "value_truthy (map_option JStr x) = truthy x"
  by (cases x) (simp_all add: value_truthy_def truthy_def json_truthy_def)

lemma start_when_idle:
  "\<not> isRecording r \<Longrightarrow>
     snd (workflowRecordStart v w (r, d))
       = (\<lparr>recording = True, session_name = v, session_steps = [], snapshot_index = None\<rparr>, d)"
  by (simp add: workflowRecordStart_def startRecording_def split: sum.splits)

text \<open>
  C2. A start that finds no session active returns the "Recording Started" text, for a
  name and a description that are strings or absent. A stop right after a start that found
  no session active, with no record call in between, fails with EmptyRecordingError,
  whatever values the start was given, and the disk after it is the disk before the start:
  no workflow document has been persisted.
\<close>

theorem stop_after_start:
  assumes "\<not> isRecording r"
  shows "fst (workflowRecordStart (map_option JStr name) (map_option JStr description) (r, d))
           = Inr (text_result (recording_started_text (str name)
                    (str (or_else description (Some ''Auto-generated workflow'')))))
       \<and> fst (workflowRecordStop (snd (workflowRecordStart any_name any_description (r, d))))
           = Inl EmptyRecordingError
       \<and> snd (snd (workflowRecordStop (snd (workflowRecordStart any_name any_description (r, d))))) = d"
proof (intro conjI)
  have "template (if value_truthy (map_option JStr description) then map_option JStr description
                  else Some (JStr ''Auto-generated workflow''))
          = Inr (str (or_else description (Some ''Auto-generated workflow'')))"
    using template_string[of description]
    by (simp add: value_truthy_string or_else_def template_def str_def)
  with assms show "fst (workflowRecordStart (map_option JStr name) (map_option JStr description) (r, d))
           = Inr (text_result (recording_started_text (str name)
                    (str (or_else description (Some ''Auto-generated workflow'')))))"
    by (simp add: workflowRecordStart_def startRecording_def template_string and_then_def)
next
  show "fst (workflowRecordStop (snd (workflowRecordStart any_name any_description (r, d))))
           = Inl EmptyRecordingError"
    unfolding start_when_idle[OF assms]
    by (simp add: workflowRecordStop_def saveWorkflow_def isRecording_def)
next
  show "snd (snd (workflowRecordStop (snd (workflowRecordStart any_name any_description (r, d))))) = d"
    unfolding start_when_idle[OF assms]
    by (simp add: workflowRecordStop_def saveWorkflow_def isRecording_def)
qed

theorem stop_after_start_witness:
  "\<not> isRecording idle
   \<and> fst (workflowRecordStart (Some (JStr ''checkout'')) None (idle, shop_disk))
       = Inr (text_result (recording_started_text ''checkout'' ''Auto-generated workflow''))
   \<and> fst (workflowRecordStop (snd (workflowRecordStart (Some (JStr ''checkout'')) None (idle, shop_disk))))
       = Inl EmptyRecordingError
   \<and> snd (snd (workflowRecordStop (snd (workflowRecordStart (Some (JStr ''checkout'')) None (idle, shop_disk)))))
       = shop_disk"
proof -
  have not_active: "\<not> isRecording idle"
    by (simp add: isRecording_def idle_def)
  from stop_after_start [OF not_active, of "Some ''checkout''" None shop_disk
      "Some (JStr ''checkout'')" None] not_active
  show ?thesis by (simp add: str_def or_else_def truthy_def)
qed

text \<open>
  C5 (as amended). A stop while no session is active does not fail: workflowRecordStop
  returns an ordinary text result that says "Not Recording", and leaves the recorder and
  the disk as they were.
\<close>

theorem stop_when_idle_returns:
  "\<not> isRecording r \<Longrightarrow> workflowRecordStop (r, d) = (Inr (text_result not_recording_text), r, d)"
  by (simp add: workflowRecordStop_def)

theorem stop_when_idle_returns_witness:
  "\<not> isRecording idle
   \<and> workflowRecordStop (idle, shop_disk) = (Inr (text_result not_recording_text), idle, shop_disk)"
  using stop_when_idle_returns [of idle shop_disk] by (simp add: isRecording_def idle_def)

text \<open>
  C5 as stated fails: with the idle recorder the stop does not end with NotRecordingError,
  it returns a result.
\<close>

theorem stop_when_idle_no_error:
  "\<not> isRecording idle
   \<and> fst (workflowRecordStop (idle, shop_disk)) = Inr (text_result not_recording_text)
   \<and> fst (workflowRecordStop (idle, shop_disk)) \<noteq> Inl NotRecordingError"
  by (simp add: workflowRecordStop_def isRecording_def idle_def)

text \<open>
  C6. A start while a session is active fails with AlreadyRecordingError, and the recorder
  (the name and the recorded steps of the session) and the disk are unchanged.
\<close>

theorem start_while_active:
  "isRecording r \<Longrightarrow>
     workflowRecordStart name description (r, d) = (Inl AlreadyRecordingError, r, d)"
  by (simp add: workflowRecordStart_def startRecording_def)

theorem start_while_active_witness:
  "isRecording recording_checkout
   \<and> workflowRecordStart (Some (JStr ''returns'')) None (recording_checkout, shop_disk)
       = (Inl AlreadyRecordingError, recording_checkout, shop_disk)"
proof -
  have active: "isRecording recording_checkout"
    by (simp add: isRecording_def recording_checkout_def)
  from start_while_active [OF active, of "Some (JStr ''returns'')" None shop_disk] active
  show ?thesis by simp
qed

text \<open>
  C9. For every action notification that arrives while no session is active, whatever the
  record operations of the recorder are, workflowRecordAction calls none of them: it
  returns without an error and leaves the recorder (so its steps) and the disk unchanged.
\<close>

theorem record_action_when_idle:
  "\<not> isRecording r \<Longrightarrow> workflowRecordAction ops action params (r, d) = (Inr (), r, d)"
  by (simp add: workflowRecordAction_def)

theorem record_action_when_idle_witness:
  "\<not> isRecording idle
   \<and> workflowRecordAction throwing_ops ''click'' click_params (idle, shop_disk) = (Inr (), idle, shop_disk)"
  using record_action_when_idle [of idle throwing_ops "''click''" click_params shop_disk]
  by (simp add: isRecording_def idle_def)

section \<open>The login helper\<close>

lemma login_returns:
  assumes "credentials d = Some (Inr (Json creds))"
    and "map_of creds site = Some c"
    and "truthy (or_else (c_username c) (c_email c))"
    and "truthy (c_loginUrl c)"
  shows "loginToSite (Some (JStr site)) d = Inr (text_result
           (login_text (toUpperCase site) (str (or_else (c_username c) (c_email c)))
              (str (c_password c)) (str (c_loginUrl c))))"
  using assms
  by (simp add: loginToSite_def loginToSite_try_def readFile_credentials_def and_then_def
      JSON_parse_def template_def credentials_at_def value_toUpperCase_def Let_def)

lemma redacted_in_text:
  \<open>sublist ''- Password: [REDACTED]'' (login_text SITE username password loginUrl)\<close>
proof -
  have \<open>sublist ''- Password: [REDACTED]'' (login_summary SITE username loginUrl)\<close>
    unfolding login_summary_def sublist_def
    by (rule exI[where x = \<open>''# Login to '' @ SITE @ ''\<newline>\<newline>'' @
            ''## Credentials Retrieved:\<newline>'' @ ''- Username/Email: '' @ username @ ''\<newline>''\<close>])
       simp
  then show ?thesis
    unfolding login_text_def by (simp add: sublist_append)
qed

lemma password_in_text:
  \<open>sublist (''### Step 4: Enter Password\<newline>'' @
            ''```json\<newline>'' @
            ''{\<newline>'' @
            ''  "tool": "browser_type",\<newline>'' @
            ''  "arguments": {\<newline>'' @
            ''    "element": "Password textbox",\<newline>'' @
            ''    "ref": "{{PASSWORD_REF}}",\<newline>'' @
            ''    "text": "'' @ password @ ''",\<newline>'')
     (login_text SITE username password loginUrl)\<close>
proof -
  have \<open>sublist (''### Step 4: Enter Password\<newline>'' @
            ''```json\<newline>'' @
            ''{\<newline>'' @
            ''  "tool": "browser_type",\<newline>'' @
            ''  "arguments": {\<newline>'' @
            ''    "element": "Password textbox",\<newline>'' @
            ''    "ref": "{{PASSWORD_REF}}",\<newline>'' @
            ''    "text": "'' @ password @ ''",\<newline>'') (login_step4 password)\<close>
    unfolding login_step4_def sublist_def
    by (rule exI[where x = \<open>[]\<close>]) simp
  then show ?thesis
    unfolding login_text_def by (simp add: sublist_append)
qed

text \<open>
  C10. For every site that the credentials file has with a username or an email, a
  password and a login URL, the text loginToSite returns says "- Password: [REDACTED]"
  in its summary, and carries the password itself, as it is stored, as the text to type
  in the instructions of Step 4.
\<close>

theorem login_redacts_yet_reveals:
  assumes \<open>credentials d = Some (Inr (Json creds))\<close>
    and \<open>map_of creds site = Some c\<close>
    and \<open>truthy (or_else (c_username c) (c_email c))\<close>
    and \<open>c_password c = Some pw\<close>
    and \<open>truthy (c_loginUrl c)\<close>
  shows \<open>\<exists>t. loginToSite (Some (JStr site)) d = Inr (text_result t)
          \<and> sublist ''- Password: [REDACTED]'' t
          \<and> sublist (''### Step 4: Enter Password\<newline>'' @
                      ''```json\<newline>'' @
                      ''{\<newline>'' @
                      ''  "tool": "browser_type",\<newline>'' @
                      ''  "arguments": {\<newline>'' @
                      ''    "element": "Password textbox",\<newline>'' @
                      ''    "ref": "{{PASSWORD_REF}}",\<newline>'' @
                      ''    "text": "'' @ pw @ ''",\<newline>'') t\<close>
proof -
  from assms(4) have pw: "str (c_password c) = pw"
    by (simp add: str_def)
  from login_returns[OF assms(1) assms(2) assms(3) assms(5)]
  have "loginToSite (Some (JStr site)) d = Inr (text_result
           (login_text (toUpperCase site) (str (or_else (c_username c) (c_email c)))
              pw (str (c_loginUrl c))))"
    unfolding pw .
  with redacted_in_text password_in_text show ?thesis by blast
qed

theorem login_redacts_yet_reveals_witness:
  \<open>\<exists>t. loginToSite (Some (JStr ''rei'')) shop_disk = Inr (text_result t)
          \<and> sublist ''- Password: [REDACTED]'' t
          \<and> sublist (''### Step 4: Enter Password\<newline>'' @
                      ''```json\<newline>'' @
                      ''{\<newline>'' @
                      ''  "tool": "browser_type",\<newline>'' @
                      ''  "arguments": {\<newline>'' @
                      ''    "element": "Password textbox",\<newline>'' @
                      ''    "ref": "{{PASSWORD_REF}}",\<newline>'' @
                      ''    "text": "s3cret!",\<newline>'') t\<close>
proof -
  let ?c = "\<lparr>c_username = None, c_email = Some ''hiker@example.com'',
             c_password = Some ''s3cret!'', c_loginUrl = Some ''https://www.rei.com/login'',
             c_notes = None\<rparr>"
  have 1: "credentials shop_disk = Some (Inr (Json [(''rei'', ?c)]))"
    by (simp add: shop_disk_def)
  have 2: "map_of [(''rei'', ?c)] ''rei'' = Some ?c" by simp
  have 3: "truthy (or_else (c_username ?c) (c_email ?c))" by (simp add: truthy_def or_else_def)
  have 4: "c_password ?c = Some ''s3cret!''" by simp
  have 5: "truthy (c_loginUrl ?c)" by (simp add: truthy_def)
  from login_redacts_yet_reveals [OF 1 2 3 4 5] show ?thesis by simp
qed

end
